theory Spec2Isabelle
  imports Complex_Main "HOL-Library.AList"
begin

section \<open>Python values\<close>

text \<open>
  The remote LMS answers in JSON, and the client works on the parsed values with
  Python's dynamic operations. A number is parsed to an \<open>int\<close> of any size or to a
  \<open>float\<close>. A float is a double: a finite one is given by its exact value, and the
  three others are values of their own (the parser produces them from \<open>Infinity\<close>,
  \<open>NaN\<close> and literals beyond the range). The two zeros compare equal and are one
  value here.
\<close>

datatype pyfloat = Finite rat | PosInf | NegInf | NaN

text \<open>
  A parsed value; a dictionary is the list of its items in insertion order (keys
  distinct, as in a Python \<open>dict\<close>).
\<close>

datatype json =
    JNull
  | JBool bool
  | JInt int
  | JFloat pyfloat
  | JStr string
  | JArr "json list"
  | JObj "(string \<times> json) list"

text \<open>
  The exceptions the modelled code can meet. \<open>JSONDecodeError\<close> is a subclass of
  \<open>ValueError\<close> in Python, which an \<open>except ValueError\<close> clause therefore catches.
\<close>

datatype exn =
    TransportError string
  | JSONDecodeError
  | AttributeError
  | TypeError
  | ValueError
  | KeyError
  | OverflowError
  | SignatureVerificationError
  | StripeError string

definition is_ValueError :: "exn \<Rightarrow> bool" where
  "is_ValueError e = (e = ValueError \<or> e = JSONDecodeError)"

text \<open>Truth value of an object, as \<open>if x\<close> and \<open>not x\<close> test it.\<close>

fun py_truthy :: "json \<Rightarrow> bool" where
  "py_truthy JNull = False"
| "py_truthy (JBool b) = b"
| "py_truthy (JInt n) = (n \<noteq> 0)"
| "py_truthy (JFloat x) = (x \<noteq> Finite 0)"
| "py_truthy (JStr s) = (s \<noteq> [])"
| "py_truthy (JArr xs) = (xs \<noteq> [])"
| "py_truthy (JObj kvs) = (kvs \<noteq> [])"

text \<open>\<open>x.get(k, d)\<close>: only a dictionary has the method.\<close>

fun py_get :: "json \<Rightarrow> string \<Rightarrow> json \<Rightarrow> exn + json" where
  "py_get (JObj kvs) k d = Inr (case map_of kvs k of None \<Rightarrow> d | Some v \<Rightarrow> v)"
| "py_get _ k d = Inl AttributeError"

text \<open>\<open>x[k]\<close> with a string key.\<close>

fun py_getitem :: "json \<Rightarrow> string \<Rightarrow> exn + json" where
  "py_getitem (JObj kvs) k = (case map_of kvs k of None \<Rightarrow> Inl KeyError | Some v \<Rightarrow> Inr v)"
| "py_getitem _ k = Inl TypeError"

text \<open>\<open>k in x\<close> for a dictionary \<open>x\<close> (the only use in the code is on a course record
  on which \<open>.get\<close> has already succeeded).\<close>

fun py_contains :: "string \<Rightarrow> json \<Rightarrow> bool" where
  "py_contains k (JObj kvs) = (map_of kvs k \<noteq> None)"
| "py_contains k _ = False"

text \<open>\<open>x.update(y)\<close> for two dictionaries: a key already present keeps its place and
  takes the new value, a new key is appended.\<close>

fun py_update :: "json \<Rightarrow> (string \<times> json) list \<Rightarrow> json" where
  "py_update (JObj kvs) new = JObj (foldl (\<lambda>acc (k, v). AList.update k v acc) kvs new)"
| "py_update j new = j"

text \<open>\<open>for m in x\<close>: a list gives its elements, a dictionary its keys, a string its
  characters; nothing else is iterable.\<close>

fun py_iter :: "json \<Rightarrow> exn + json list" where
  "py_iter (JArr xs) = Inr xs"
| "py_iter (JObj kvs) = Inr (map (\<lambda>kv. JStr (fst kv)) kvs)"
| "py_iter (JStr s) = Inr (map (\<lambda>c. JStr [c]) s)"
| "py_iter _ = Inl TypeError"

text \<open>
  The builtins whose tables are Python's own are parameters of the model:
  \<open>float(s)\<close> on a string (\<open>None\<close> where it raises \<open>ValueError\<close>) and
  \<open>s.upper()\<close>.
\<close>

record builtins =
  float_of_str :: "string \<Rightarrow> pyfloat option"
  str_upper :: "string \<Rightarrow> string"

text \<open>
  \<open>float(n)\<close> on an \<open>int\<close>: the nearest double, a tie to the even significand of
  53 bits, and \<open>OverflowError\<close> when that is beyond the largest double. Below
  \<open>2^53 = 9007199254740992\<close> every integer is a double.
\<close>

fun bit_length :: "nat \<Rightarrow> nat" where
  "bit_length n = (if n = 0 then 0 else Suc (bit_length (n div 2)))"

declare bit_length.simps [simp del]

definition float_of_int :: "int \<Rightarrow> exn + pyfloat" where
  "float_of_int n =
     (if \<bar>n\<bar> < 9007199254740992 then Inr (Finite (of_int n))
      else
        (let a = nat \<bar>n\<bar>;
             e = bit_length a - 53;
             q = a div 2 ^ e;
             r = a mod 2 ^ e;
             q1 = (if 2 * r > 2 ^ e \<or> (2 * r = 2 ^ e \<and> odd q) then q + 1 else q);
             v = q1 * 2 ^ e
         in if v \<ge> 2 ^ 1024 then Inl OverflowError
            else Inr (Finite (if n < 0 then - of_nat v else of_nat v))))"

text \<open>\<open>float(x)\<close>: a float is returned as it is.\<close>

fun py_float :: "builtins \<Rightarrow> json \<Rightarrow> exn + pyfloat" where
  "py_float py (JFloat x) = Inr x"
| "py_float py (JInt n) = float_of_int n"
| "py_float py (JBool b) = Inr (Finite (if b then 1 else 0))"
| "py_float py (JStr s) = (case float_of_str py s of None \<Rightarrow> Inl ValueError | Some x \<Rightarrow> Inr x)"
| "py_float py _ = Inl TypeError"

text \<open>\<open>x > 0\<close> on a float: false for \<open>nan\<close>.\<close>

fun float_pos :: "pyfloat \<Rightarrow> bool" where
  "float_pos (Finite r) = (r > 0)"
| "float_pos PosInf = True"
| "float_pos NegInf = False"
| "float_pos NaN = False"

text \<open>\<open>x.upper()\<close>: only a string has the method.\<close>

fun py_upper :: "builtins \<Rightarrow> json \<Rightarrow> exn + string" where
  "py_upper py (JStr s) = Inr (str_upper py s)"
| "py_upper py _ = Inl AttributeError"

text \<open>\<open>int(x)\<close> on a number truncates toward zero.\<close>

definition py_int :: "rat \<Rightarrow> int" where
  "py_int x = (if 0 \<le> x then \<lfloor>x\<rfloor> else - \<lfloor>- x\<rfloor>)"

section \<open>The cart (app/models/cart.py)\<close>

text \<open>
  The rows of table \<open>cart_items\<close>, with the columns the operations read. The
  \<open>items\<close> relationship of a cart is the query for the rows carrying its id; every
  mutation commits, which expires loaded state, so \<open>items\<close> always reads the table.
  The storage layer is taken to accept every insert and delete. The primary-key lookups
  \<open>Cart.query.get\<close> and \<open>User.query.get\<close> are the two functions of the database
  state; their argument is the value found in the event's metadata.
\<close>

record cart_item =
  cart_id :: int
  course_id :: string
  mode :: string
  price :: "rat option"
  currency :: "string option"

record cart =
  cart_pk :: int
  user_id :: int

record user =
  user_pk :: int
  username :: string

record db =
  cart_items :: "cart_item list"
  carts_get :: "json \<Rightarrow> cart option"
  users_get :: "json \<Rightarrow> user option"

definition items :: "cart \<Rightarrow> db \<Rightarrow> cart_item list" where
  "items self d = filter (\<lambda>it. cart_id it = cart_pk self) (cart_items d)"

definition has_item :: "cart \<Rightarrow> string \<Rightarrow> db \<Rightarrow> bool" where
  "has_item self cid d =
     (find (\<lambda>it. cart_id it = cart_pk self \<and> course_id it = cid) (cart_items d) \<noteq> None)"

definition add_item ::
  "cart \<Rightarrow> string \<Rightarrow> string \<Rightarrow> rat option \<Rightarrow> string option \<Rightarrow> db \<Rightarrow> bool \<times> db" where
  "add_item self cid md pr cur d =
     (if \<not> has_item self cid d then
        (True, d\<lparr>cart_items := cart_items d @
           [\<lparr>cart_id = cart_pk self, course_id = cid, mode = md, price = pr, currency = cur\<rparr>]\<rparr>)
      else (False, d))"

definition remove_item :: "cart \<Rightarrow> string \<Rightarrow> db \<Rightarrow> bool \<times> db" where
  "remove_item self cid d =
     (case find (\<lambda>it. cart_id it = cart_pk self \<and> course_id it = cid) (cart_items d) of
        Some it \<Rightarrow> (True, d\<lparr>cart_items := remove1 it (cart_items d)\<rparr>)
      | None \<Rightarrow> (False, d))"

definition clear :: "cart \<Rightarrow> db \<Rightarrow> db" where
  "clear self d = d\<lparr>cart_items := filter (\<lambda>it. cart_id it \<noteq> cart_pk self) (cart_items d)\<rparr>"

text \<open>The \<open>total\<close> property:
  \<open>sum(item.price for item in self.items if item.price is not None)\<close>.\<close>

definition sum_prices :: "cart_item list \<Rightarrow> rat" where
  "sum_prices its = foldl (\<lambda>acc it. case price it of None \<Rightarrow> acc | Some p \<Rightarrow> acc + p) 0 its"

definition cart_total :: "cart \<Rightarrow> db \<Rightarrow> rat" where
  "cart_total self d = sum_prices (items self d)"

section \<open>The remote LMS as seen through the HTTP session\<close>

text \<open>
  A request is identified by its method, the endpoint it addresses (the base URL of
  the deployment is fixed, and a course identifier interpolated into a path stays the
  value it was), the credentials it carries in its headers and its parameters or body.
\<close>

datatype url =
    OAuthToken            \<comment> \<open>\<open>/oauth2/access_token/\<close>\<close>
  | SiteRoot              \<comment> \<open>the base URL itself\<close>
  | CatalogCourses        \<comment> \<open>\<open>/api/courses/v1/courses/\<close>\<close>
  | CommerceCourse json   \<comment> \<open>\<open>/api/commerce/v1/courses/{course_id}/\<close>\<close>
  | CourseModes json      \<comment> \<open>\<open>/api/enrollment/v1/course/{course_id}/modes\<close>\<close>
  | Enrollment            \<comment> \<open>\<open>/api/enrollment/v1/enrollment\<close>\<close>

datatype http_method = GET | POST

record headers =
  authorization :: "json option"   \<comment> \<open>the value formatted after \<open>jwt\<close> in \<open>Authorization\<close>\<close>
  x_csrftoken :: "string option"   \<comment> \<open>\<open>X-CSRFToken\<close>, repeated in \<open>Cookie: csrftoken=\<close>\<close>

record request =
  req_method :: http_method
  req_url :: url
  req_headers :: headers
  req_payload :: json              \<comment> \<open>\<open>params\<close>, \<open>data\<close> or \<open>json\<close> of the call\<close>

record response =
  status_code :: nat
  text_body :: string              \<comment> \<open>\<open>response.text\<close>\<close>
  json_body :: "json option"       \<comment> \<open>what \<open>response.json()\<close> parses, \<open>None\<close> where it raises\<close>
  cookies :: "(string \<times> string) list"
  resp_headers :: "string \<Rightarrow> string option"   \<comment> \<open>\<open>response.headers.get\<close>\<close>

text \<open>
  The remote side is any deterministic server: its answer to a request may depend on
  all the requests it has received before. An answer is a response or a transport
  exception raised by the session.
\<close>

type_synonym remote = "request list \<Rightarrow> request \<Rightarrow> exn + response"

definition response_json :: "response \<Rightarrow> exn + json" where
  "response_json r = (case json_body r of None \<Rightarrow> Inl JSONDecodeError | Some j \<Rightarrow> Inr j)"

section \<open>The client (app/utils/edx_api.py, class OpenEdxAPI)\<close>

text \<open>
  The state of one client instance: its two cached credentials and its configuration.
  Two further fields record what the instance has done, for the properties below to
  speak about: every request passed to the session, in order, and the arguments of every
  call of \<open>enroll\<close>.
\<close>

record client =
  client_id :: string
  client_secret :: string
  access_token :: json
  csrf_token :: "string option"
  requests_sent :: "request list"
  enroll_calls :: "(string \<times> string \<times> string) list"

definition OpenEdxAPI :: "string \<Rightarrow> string \<Rightarrow> client" where
  "OpenEdxAPI cid csecret =
     \<lparr>client_id = cid, client_secret = csecret, access_token = JStr [], csrf_token = None,
      requests_sent = [], enroll_calls = []\<rparr>"

definition session_send :: "remote \<Rightarrow> request \<Rightarrow> client \<Rightarrow> (exn + response) \<times> client" where
  "session_send srv rq c = (srv (requests_sent c) rq, c\<lparr>requests_sent := requests_sent c @ [rq]\<rparr>)"

definition no_auth :: headers where
  "no_auth = \<lparr>authorization = None, x_csrftoken = None\<rparr>"

definition token_request :: "client \<Rightarrow> request" where
  "token_request c =
     \<lparr>req_method = POST, req_url = OAuthToken, req_headers = no_auth,
      req_payload = JObj [(''grant_type'', JStr ''client_credentials''),
                          (''client_id'', JStr (client_id c)),
                          (''client_secret'', JStr (client_secret c)),
                          (''token_type'', JStr ''jwt'')]\<rparr>"

text \<open>\<open>_get_access_token\<close>: returns the cached token, fetching it first when the cache
  holds a false value. An exception inside the \<open>try\<close> returns \<open>None\<close>.\<close>

definition get_access_token :: "remote \<Rightarrow> client \<Rightarrow> json \<times> client" where
  "get_access_token srv c =
     (if \<not> py_truthy (access_token c) then
        (case session_send srv (token_request c) c of
           (Inl e, c1) \<Rightarrow> (JNull, c1)
         | (Inr response, c1) \<Rightarrow>
             if status_code response = 200 then
               (case response_json response of
                  Inl e \<Rightarrow> (JNull, c1)
                | Inr token_data \<Rightarrow>
                    (case py_get token_data ''access_token'' JNull of
                       Inl e \<Rightarrow> (JNull, c1)
                     | Inr tok \<Rightarrow> (tok, c1\<lparr>access_token := tok\<rparr>)))
             else (access_token c1, c1))
      else (access_token c, c))"

definition str_truthy :: "string option \<Rightarrow> bool" where
  "str_truthy t = (case t of None \<Rightarrow> False | Some s \<Rightarrow> s \<noteq> [])"

definition csrf_request :: request where
  "csrf_request =
     \<lparr>req_method = GET, req_url = SiteRoot, req_headers = no_auth, req_payload = JNull\<rparr>"

text \<open>\<open>_get_csrf_token\<close>: returns the cached token, fetching the site root first when
  the cache holds a false value (\<open>None\<close> or the empty string). The cookie is tried
  first, then the response header, whose case-insensitive lookup is the response's own;
  an exception is logged and the cache left as it was.\<close>

definition get_csrf_token :: "remote \<Rightarrow> client \<Rightarrow> string option \<times> client" where
  "get_csrf_token srv c =
     (if \<not> str_truthy (csrf_token c) then
        (case session_send srv csrf_request c of
           (Inl e, c1) \<Rightarrow> (csrf_token c1, c1)
         | (Inr response, c1) \<Rightarrow>
             (let t1 = map_of (cookies response) ''csrftoken'';
                  t2 = (if \<not> str_truthy t1 then resp_headers response ''X-CSRFToken''
                        else t1)
              in (t2, c1\<lparr>csrf_token := t2\<rparr>)))
      else (csrf_token c, c))"

text \<open>\<open>_get_auth_headers\<close>: the access token is asked for twice, once for the log line
  and once for the header.\<close>

definition get_auth_headers :: "bool \<Rightarrow> remote \<Rightarrow> client \<Rightarrow> headers \<times> client" where
  "get_auth_headers include_csrf srv c =
     (let (logged, c1) = get_access_token srv c;
          (tok, c2) = get_access_token srv c1;
          hs = \<lparr>authorization = Some tok, x_csrftoken = None\<rparr>
      in if include_csrf then
           (let (csrf, c3) = get_csrf_token srv c2
            in if str_truthy csrf then (hs\<lparr>x_csrftoken := csrf\<rparr>, c3) else (hs, c3))
         else (hs, c2))"

subsection \<open>Pricing\<close>

text \<open>
  The same two loops over a list of modes occur for both pricing sources, in
  \<open>get_course_price\<close> and inline in \<open>get_courses\<close>. The first takes the first mode
  whose name is \<open>professional\<close> or \<open>verified\<close>; the second takes the first mode
  whose price is positive. Each yields the three entries of the price dictionary.
\<close>

definition is_named :: "json \<Rightarrow> bool" where
  "is_named nm = (nm = JStr ''professional'' \<or> nm = JStr ''verified'')"

definition mode_price :: "builtins \<Rightarrow> json \<Rightarrow> exn + pyfloat" where
  "mode_price py m =
     (case py_get m ''price'' (JInt 0) of Inl e \<Rightarrow> Inl e | Inr p \<Rightarrow> py_float py p)"

definition mode_currency :: "builtins \<Rightarrow> json \<Rightarrow> exn + string" where
  "mode_currency py m =
     (case py_get m ''currency'' (JStr ''USD'') of Inl e \<Rightarrow> Inl e | Inr cu \<Rightarrow> py_upper py cu)"

definition price_dict :: "pyfloat \<Rightarrow> string \<Rightarrow> string \<Rightarrow> (string \<times> json) list" where
  "price_dict p cu src = [(''price'', JFloat p), (''currency'', JStr cu), (''source'', JStr src)]"

fun scan_named ::
  "builtins \<Rightarrow> string \<Rightarrow> json list \<Rightarrow> exn + (string \<times> json) list option" where
  "scan_named py src [] = Inr None"
| "scan_named py src (m # rest) =
     (case py_get m ''name'' JNull of
        Inl e \<Rightarrow> Inl e
      | Inr nm \<Rightarrow>
          if is_named nm then
            (case mode_price py m of
               Inl e \<Rightarrow> Inl e
             | Inr p \<Rightarrow>
                 (case mode_currency py m of
                    Inl e \<Rightarrow> Inl e
                  | Inr cu \<Rightarrow> Inr (Some (price_dict p cu src))))
          else scan_named py src rest)"

fun scan_positive ::
  "builtins \<Rightarrow> string \<Rightarrow> json list \<Rightarrow> exn + (string \<times> json) list option" where
  "scan_positive py src [] = Inr None"
| "scan_positive py src (m # rest) =
     (case mode_price py m of
        Inl e \<Rightarrow> Inl e
      | Inr p \<Rightarrow>
          if float_pos p then
            (case mode_currency py m of
               Inl e \<Rightarrow> Inl e
             | Inr cu \<Rightarrow> Inr (Some (price_dict p cu src)))
          else scan_positive py src rest)"

text \<open>The handling of the commerce response in \<open>get_course_price\<close>: the modes are
  \<open>commerce_data.get('modes', [])\<close>.\<close>

definition commerce_prices ::
  "builtins \<Rightarrow> response \<Rightarrow> exn + (string \<times> json) list option" where
  "commerce_prices py commerce_response =
     (if status_code commerce_response = 200 then
        (case response_json commerce_response of
           Inl e \<Rightarrow> Inl e
         | Inr commerce_data \<Rightarrow>
             (case py_get commerce_data ''modes'' (JArr []) of
                Inl e \<Rightarrow> Inl e
              | Inr ms \<Rightarrow>
                  (case py_iter ms of
                     Inl e \<Rightarrow> Inl e
                   | Inr modes \<Rightarrow>
                       (case scan_named py ''commerce_api'' modes of
                          Inl e \<Rightarrow> Inl e
                        | Inr (Some info) \<Rightarrow> Inr (Some info)
                        | Inr None \<Rightarrow> scan_positive py ''commerce_api'' modes))))
      else Inr None)"

text \<open>The handling of the course-modes response: the body itself is the list.\<close>

definition modes_prices ::
  "builtins \<Rightarrow> response \<Rightarrow> exn + (string \<times> json) list option" where
  "modes_prices py modes_response =
     (if status_code modes_response = 200 then
        (case response_json modes_response of
           Inl e \<Rightarrow> Inl e
         | Inr modes_data \<Rightarrow>
             (case py_iter modes_data of
                Inl e \<Rightarrow> Inl e
              | Inr modes \<Rightarrow>
                  (case scan_named py ''course_modes_api'' modes of
                     Inl e \<Rightarrow> Inl e
                   | Inr (Some info) \<Rightarrow> Inr (Some info)
                   | Inr None \<Rightarrow> scan_positive py ''course_modes_api'' modes)))
      else Inr None)"

definition get_request :: "url \<Rightarrow> headers \<Rightarrow> request" where
  "get_request u hs = \<lparr>req_method = GET, req_url = u, req_headers = hs, req_payload = JNull\<rparr>"

text \<open>The two literal results; their price is the \<open>int\<close> 0.\<close>

definition default_price :: json where
  "default_price =
     JObj [(''price'', JInt 0), (''currency'', JStr ''USD''), (''source'', JStr ''default'')]"

definition error_price :: json where
  "error_price =
     JObj [(''price'', JInt 0), (''currency'', JStr ''USD''), (''source'', JStr ''error'')]"

text \<open>\<open>get_course_price\<close>. Every exception raised inside the \<open>try\<close>, by a session
  call or by the handling of a response, ends in the \<open>except\<close> clause.\<close>

definition get_course_price ::
  "builtins \<Rightarrow> remote \<Rightarrow> json \<Rightarrow> client \<Rightarrow> json \<times> client" where
  "get_course_price py srv course c =
     (let (hs1, c1) = get_auth_headers True srv c;
          (r1, c2) = session_send srv (get_request (CommerceCourse course) hs1) c1
      in case (case r1 of Inl e \<Rightarrow> Inl e | Inr resp \<Rightarrow> commerce_prices py resp) of
           Inl e \<Rightarrow> (error_price, c2)
         | Inr (Some info) \<Rightarrow> (JObj info, c2)
         | Inr None \<Rightarrow>
             (let (hs2, c3) = get_auth_headers True srv c2;
                  (r2, c4) = session_send srv (get_request (CourseModes course) hs2) c3
              in case (case r2 of Inl e \<Rightarrow> Inl e | Inr resp \<Rightarrow> modes_prices py resp) of
                   Inl e \<Rightarrow> (error_price, c4)
                 | Inr (Some info) \<Rightarrow> (JObj info, c4)
                 | Inr None \<Rightarrow> (default_price, c4)))"

subsection \<open>The course listing\<close>

text \<open>
  The pricing of one course record inside \<open>get_courses\<close>. The record is updated in
  place; nothing here catches an exception, and nothing sets a price when neither
  source gives one.
\<close>

definition apply_price :: "json \<Rightarrow> (string \<times> json) list option \<Rightarrow> json" where
  "apply_price course found = (case found of None \<Rightarrow> course | Some info \<Rightarrow> py_update course info)"

definition commerce_update :: "builtins \<Rightarrow> response \<Rightarrow> json \<Rightarrow> exn + json" where
  "commerce_update py commerce_response course =
     (if status_code commerce_response = 200 then
        (case response_json commerce_response of
           Inl e \<Rightarrow> Inl e
         | Inr commerce_data \<Rightarrow>
             (case py_get commerce_data ''modes'' (JArr []) of
                Inl e \<Rightarrow> Inl e
              | Inr ms \<Rightarrow>
                  (case py_iter ms of
                     Inl e \<Rightarrow> Inl e
                   | Inr modes \<Rightarrow>
                       (case scan_named py ''commerce_api'' modes of
                          Inl e \<Rightarrow> Inl e
                        | Inr found \<Rightarrow>
                            (let course1 = apply_price course found
                             in if \<not> py_contains ''price'' course1 then
                                  (case scan_positive py ''commerce_api'' modes of
                                     Inl e \<Rightarrow> Inl e
                                   | Inr found2 \<Rightarrow> Inr (apply_price course1 found2))
                                else Inr course1)))))
      else Inr course)"

definition modes_update :: "builtins \<Rightarrow> response \<Rightarrow> json \<Rightarrow> exn + json" where
  "modes_update py modes_response course =
     (if status_code modes_response = 200 then
        (case response_json modes_response of
           Inl e \<Rightarrow> Inl e
         | Inr modes_data \<Rightarrow>
             (case py_iter modes_data of
                Inl e \<Rightarrow> Inl e
              | Inr modes \<Rightarrow>
                  (case scan_named py ''course_modes_api'' modes of
                     Inl e \<Rightarrow> Inl e
                   | Inr found \<Rightarrow>
                       (let course1 = apply_price course found
                        in if \<not> py_contains ''price'' course1 then
                             (case scan_positive py ''course_modes_api'' modes of
                                Inl e \<Rightarrow> Inl e
                              | Inr found2 \<Rightarrow> Inr (apply_price course1 found2))
                           else Inr course1))))
      else Inr course)"

definition price_course ::
  "builtins \<Rightarrow> remote \<Rightarrow> headers \<Rightarrow> json \<Rightarrow> client \<Rightarrow> (exn + json) \<times> client" where
  "price_course py srv hs course c =
     (case py_get course ''id'' JNull of
        Inl e \<Rightarrow> (Inl e, c)
      | Inr cid \<Rightarrow>
          if py_truthy cid then
            (let (r1, c1) = session_send srv (get_request (CommerceCourse cid) hs) c
             in case (case r1 of Inl e \<Rightarrow> Inl e | Inr resp \<Rightarrow> commerce_update py resp course) of
                  Inl e \<Rightarrow> (Inl e, c1)
                | Inr course1 \<Rightarrow>
                    if \<not> py_contains ''price'' course1 then
                      (let (r2, c2) = session_send srv (get_request (CourseModes cid) hs) c1
                       in (case r2 of Inl e \<Rightarrow> Inl e | Inr resp \<Rightarrow> modes_update py resp course1, c2))
                    else (Inr course1, c1))
          else (Inr course, c))"

text \<open>The loop \<open>for course in courses\<close>: the first exception leaves it.\<close>

fun price_courses ::
  "builtins \<Rightarrow> remote \<Rightarrow> headers \<Rightarrow> json list \<Rightarrow> client \<Rightarrow> (exn + json list) \<times> client" where
  "price_courses py srv hs [] c = (Inr [], c)"
| "price_courses py srv hs (course # rest) c =
     (case price_course py srv hs course c of
        (Inl e, c1) \<Rightarrow> (Inl e, c1)
      | (Inr course1, c1) \<Rightarrow>
          (case price_courses py srv hs rest c1 of
             (Inl e, c2) \<Rightarrow> (Inl e, c2)
           | (Inr rest1, c2) \<Rightarrow> (Inr (course1 # rest1), c2)))"

text \<open>\<open>get_courses\<close>: \<open>None\<close> on a status other than 200 and on any exception.\<close>

definition get_courses ::
  "builtins \<Rightarrow> remote \<Rightarrow> int \<Rightarrow> int \<Rightarrow> client \<Rightarrow> json option \<times> client" where
  "get_courses py srv page page_size c =
     (let (hs, c1) = get_auth_headers True srv c;
          params = JObj [(''page'', JInt page), (''page_size'', JInt page_size)];
          (r, c2) = session_send srv
             \<lparr>req_method = GET, req_url = CatalogCourses, req_headers = hs, req_payload = params\<rparr> c1
      in case r of
           Inl e \<Rightarrow> (None, c2)
         | Inr response \<Rightarrow>
             if status_code response = 200 then
               (case response_json response of
                  Inl e \<Rightarrow> (None, c2)
                | Inr data \<Rightarrow>
                    (case py_get data ''results'' (JArr []) of
                       Inl e \<Rightarrow> (None, c2)
                     | Inr courses \<Rightarrow>
                         (case py_iter courses of
                            Inl e \<Rightarrow> (None, c2)
                          | Inr elems \<Rightarrow>
                              (case price_courses py srv hs elems c2 of
                                 (Inl e, c3) \<Rightarrow> (None, c3)
                               | (Inr elems1, c3) \<Rightarrow>
                                   (case py_get data ''count'' (JInt 0) of
                                      Inl e \<Rightarrow> (None, c3)
                                    | Inr cnt \<Rightarrow>
                                        (Some (JObj
                                           [(''results'',
                                               (case courses of JArr old \<Rightarrow> JArr elems1 | other \<Rightarrow> other)),
                                            (''pagination'',
                                               JObj [(''page'', JInt page),
                                                     (''page_size'', JInt page_size),
                                                     (''total'', cnt)])]), c3))))))
             else (None, c2))"

subsection \<open>Enrollment\<close>

text \<open>What \<open>enroll\<close> returns beside its flag: the parsed body or a message, or
  \<open>str(e)\<close> of the exception it caught. The first step of the model notes the
  arguments of the call in \<open>enroll_calls\<close>; everything after it follows the source,
  whose outer \<open>except\<close> turns every exception into a failed result.\<close>

datatype enroll_info = Payload json | Raised exn

definition enrollment_request :: "json \<Rightarrow> string option \<Rightarrow> string \<Rightarrow> string \<Rightarrow> string \<Rightarrow> request" where
  "enrollment_request tok csrf email cid md =
     \<lparr>req_method = POST, req_url = Enrollment,
      req_headers = \<lparr>authorization = Some tok,
                     x_csrftoken = (if str_truthy csrf then csrf else None)\<rparr>,
      req_payload = JObj [(''user'', JStr email),
                          (''course_details'', JObj [(''course_id'', JStr cid)]),
                          (''mode'', JStr md)]\<rparr>"

definition enroll ::
  "remote \<Rightarrow> string \<Rightarrow> string \<Rightarrow> string \<Rightarrow> client \<Rightarrow> (bool \<times> enroll_info) \<times> client" where
  "enroll srv email cid md c0 =
     (let c = c0\<lparr>enroll_calls := enroll_calls c0 @ [(email, cid, md)]\<rparr>;
          (tok, c1) = get_access_token srv c
      in if \<not> py_truthy tok then ((False, Payload (JStr ''Authentication failed'')), c1)
         else
           (let (csrf, c2) = get_csrf_token srv c1;
                (r, c3) = session_send srv (enrollment_request tok csrf email cid md) c2
            in case r of
                 Inl e \<Rightarrow> ((False, Raised e), c3)
               | Inr response \<Rightarrow>
                   if status_code response = 200 \<or> status_code response = 201 then
                     (case response_json response of
                        Inl e \<Rightarrow> ((False, Raised e), c3)
                      | Inr enrollment_data \<Rightarrow> ((True, Payload enrollment_data), c3))
                   else
                     (case (if text_body response \<noteq> [] then response_json response
                            else Inr (JObj [])) of
                        Inl e \<Rightarrow> ((False, Raised e), c3)
                      | Inr error_data \<Rightarrow>
                          (case py_get error_data ''message'' (JStr ''Unknown error occurred'') of
                             Inl e \<Rightarrow> ((False, Raised e), c3)
                           | Inr error_message \<Rightarrow> ((False, Payload error_message), c3)))))"

section \<open>Checkout and webhook (app/routes/payment.py)\<close>

record config =
  openedx_client_id :: string
  openedx_client_secret :: string
  stripe_webhook_secret :: "string option"
  stripe_currency :: string

text \<open>The body of a JSON reply of the two routes.\<close>

datatype reply_body =
    Status string          \<comment> \<open>\<open>{'status': ...}\<close>\<close>
  | Error string           \<comment> \<open>\<open>{'error': ...}\<close>\<close>
  | ErrorOf exn            \<comment> \<open>\<open>{'error': str(e)}\<close>\<close>
  | ClientSecret string    \<comment> \<open>\<open>{'clientSecret': ...}\<close>\<close>

type_synonym reply = "nat \<times> reply_body"

text \<open>The arguments of \<open>stripe.PaymentIntent.create\<close>.\<close>

record intent_params =
  amount :: int
  intent_currency :: string
  metadata_user_id :: int
  metadata_cart_id :: int

text \<open>
  \<open>create_payment_intent\<close>. The payment processor is the parameter
  \<open>stripe_create\<close>: it answers a creation call with the client secret of the new intent
  or raises. Beside the reply, the result lists the creation calls made.
\<close>

definition create_payment_intent ::
  "(intent_params \<Rightarrow> exn + string) \<Rightarrow> config \<Rightarrow> user \<Rightarrow> cart option \<Rightarrow> db
     \<Rightarrow> reply \<times> intent_params list" where
  "create_payment_intent stripe_create cfg current_user shopping_cart d =
     (case shopping_cart of
        None \<Rightarrow> ((400, Error ''Cart is empty''), [])
      | Some crt \<Rightarrow>
          if items crt d = [] then ((400, Error ''Cart is empty''), [])
          else
            (let tot = sum_prices (items crt d);
                 params = \<lparr>amount = py_int (tot * 100), intent_currency = stripe_currency cfg,
                           metadata_user_id = user_pk current_user, metadata_cart_id = cart_pk crt\<rparr>
             in case stripe_create params of
                  Inl e \<Rightarrow> ((500, ErrorOf e), [params])
                | Inr secret \<Rightarrow> ((200, ClientSecret secret), [params])))"

text \<open>The loop of the webhook over the lines of the cart. \<open>user.username\<close> raises
  when no user was found; the outcome of an enrollment is logged and dropped.\<close>

fun enroll_items ::
  "remote \<Rightarrow> user option \<Rightarrow> cart_item list \<Rightarrow> client \<Rightarrow> (exn + unit) \<times> client" where
  "enroll_items srv usr [] c = (Inr (), c)"
| "enroll_items srv usr (item # rest) c =
     (case usr of
        None \<Rightarrow> (Inl AttributeError, c)
      | Some u \<Rightarrow>
          (let (outcome, c1) = enroll srv (username u) (course_id item) (mode item) c
           in enroll_items srv usr rest c1))"

text \<open>\<open>payment_intent['metadata'][k]\<close> for \<open>payment_intent = event['data']['object']\<close>.\<close>

definition event_metadata :: "json \<Rightarrow> string \<Rightarrow> exn + json" where
  "event_metadata event k =
     (case py_getitem event ''data'' of
        Inl e \<Rightarrow> Inl e
      | Inr dat \<Rightarrow>
          (case py_getitem dat ''object'' of
             Inl e \<Rightarrow> Inl e
           | Inr payment_intent \<Rightarrow>
               (case py_getitem payment_intent ''metadata'' of
                  Inl e \<Rightarrow> Inl e
                | Inr md \<Rightarrow> py_getitem md k)))"

text \<open>
  \<open>webhook\<close>. The signature check of the payment processor's library is the parameter
  \<open>construct_event\<close>: it returns the parsed event or raises. The result is the reply,
  the database and the client the handler created, with what that client did.
\<close>

definition webhook ::
  "(string \<Rightarrow> string option \<Rightarrow> string option \<Rightarrow> exn + json) \<Rightarrow> remote \<Rightarrow> config
     \<Rightarrow> string \<Rightarrow> string option \<Rightarrow> db \<Rightarrow> reply \<times> db \<times> client" where
  "webhook construct_event srv cfg payload sig_header d =
     (let edx_api = OpenEdxAPI (openedx_client_id cfg) (openedx_client_secret cfg)
      in case construct_event payload sig_header (stripe_webhook_secret cfg) of
           Inl e \<Rightarrow>
             if is_ValueError e then ((400, Error ''Invalid payload''), d, edx_api)
             else if e = SignatureVerificationError then ((400, Error ''Invalid signature''), d, edx_api)
             else ((500, ErrorOf e), d, edx_api)
         | Inr event \<Rightarrow>
             (case py_getitem event ''type'' of
                Inl e \<Rightarrow> ((500, ErrorOf e), d, edx_api)
              | Inr ty \<Rightarrow>
                  if ty = JStr ''payment_intent.succeeded'' then
                    (case event_metadata event ''cart_id'' of
                       Inl e \<Rightarrow> ((500, ErrorOf e), d, edx_api)
                     | Inr cart_key \<Rightarrow>
                         (case event_metadata event ''user_id'' of
                            Inl e \<Rightarrow> ((500, ErrorOf e), d, edx_api)
                          | Inr user_key \<Rightarrow>
                              (let usr = users_get d user_key
                               in case carts_get d cart_key of
                                    None \<Rightarrow> ((404, Error ''Cart not found''), d, edx_api)
                                  | Some crt \<Rightarrow>
                                      (case enroll_items srv usr (items crt d) edx_api of
                                         (Inl e, api1) \<Rightarrow> ((500, ErrorOf e), d, api1)
                                       | (Inr u, api1) \<Rightarrow>
                                           ((200, Status ''success''), clear crt d, api1)))))
                  else ((200, Status ''success''), d, edx_api)))"

section \<open>Vocabulary of the properties\<close>

text \<open>A server that gives one fixed answer to every request for an endpoint.\<close>

definition answers :: "remote \<Rightarrow> url \<Rightarrow> exn + response \<Rightarrow> bool" where
  "answers srv u a = (\<forall>log rq. req_url rq = u \<longrightarrow> srv log rq = a)"

text \<open>A mode entry is a dictionary whose name is, or is not, one of the two preferred
  names; it is unpriced when its price converts to a number that is not positive.\<close>

definition unnamed_mode :: "json \<Rightarrow> bool" where
  "unnamed_mode m = (case py_get m ''name'' JNull of Inr nm \<Rightarrow> \<not> is_named nm | Inl e \<Rightarrow> False)"

definition named_mode :: "json \<Rightarrow> bool" where
  "named_mode m = (case py_get m ''name'' JNull of Inr nm \<Rightarrow> is_named nm | Inl e \<Rightarrow> False)"

definition unpriced_mode :: "builtins \<Rightarrow> json \<Rightarrow> bool" where
  "unpriced_mode py m = (case mode_price py m of Inr p \<Rightarrow> \<not> float_pos p | Inl e \<Rightarrow> False)"

definition offers_nothing :: "builtins \<Rightarrow> json list \<Rightarrow> bool" where
  "offers_nothing py modes = list_all (\<lambda>m. unnamed_mode m \<and> unpriced_mode py m) modes"

text \<open>A pricing response gives no price: its status is not 200, or its modes hold
  neither a preferred name nor a positive price.\<close>

definition commerce_silent :: "builtins \<Rightarrow> response \<Rightarrow> bool" where
  "commerce_silent py rc =
     (status_code rc \<noteq> 200 \<or>
      (case json_body rc of
         None \<Rightarrow> False
       | Some data \<Rightarrow>
           (case py_get data ''modes'' (JArr []) of
              Inl e \<Rightarrow> False
            | Inr ms \<Rightarrow> (case py_iter ms of Inl e \<Rightarrow> False | Inr modes \<Rightarrow> offers_nothing py modes))))"

definition modes_silent :: "builtins \<Rightarrow> response \<Rightarrow> bool" where
  "modes_silent py rm =
     (status_code rm \<noteq> 200 \<or>
      (case json_body rm of
         None \<Rightarrow> False
       | Some data \<Rightarrow> (case py_iter data of Inl e \<Rightarrow> False | Inr modes \<Rightarrow> offers_nothing py modes)))"

text \<open>A price entry that \<open>float\<close> returns unchanged in value: a float, or an
  \<open>int\<close> that a double holds exactly as every integer up to \<open>2^53\<close> is.\<close>

definition exact_price :: "json \<Rightarrow> pyfloat \<Rightarrow> bool" where
  "exact_price v p =
     (case v of
        JFloat x \<Rightarrow> p = x
      | JInt n \<Rightarrow> \<bar>n\<bar> \<le> 2 ^ 53 \<and> p = Finite (of_int n)
      | _ \<Rightarrow> False)"

text \<open>The amount as the specification words it, \<open>round(total * 100)\<close>, with
  Python's \<open>round\<close>: to the nearest integer, a tie to the even neighbour.\<close>

definition py_round :: "rat \<Rightarrow> int" where
  "py_round x =
     (let f = \<lfloor>x\<rfloor>; d = x - of_int f
      in if d < 1 / 2 then f else if d > 1 / 2 then f + 1 else if even f then f else f + 1)"

section \<open>Example data\<close>

text \<open>A configurable server with one answer per endpoint, and the inputs at which the
  properties below are instantiated.\<close>

definition http_response :: "nat \<Rightarrow> string \<Rightarrow> json option \<Rightarrow> response" where
  "http_response st txt j =
     \<lparr>status_code = st, text_body = txt, json_body = j, cookies = [],
      resp_headers = (\<lambda>k. None)\<rparr>"

record lms =
  on_token :: "exn + response"
  on_root :: "exn + response"
  on_catalog :: "exn + response"
  on_commerce :: "exn + response"
  on_modes :: "exn + response"
  on_enrollment :: "exn + response"

definition serve :: "lms \<Rightarrow> remote" where
  "serve l history rq =
     (case req_url rq of
        OAuthToken \<Rightarrow> on_token l
      | SiteRoot \<Rightarrow> on_root l
      | CatalogCourses \<Rightarrow> on_catalog l
      | CommerceCourse u \<Rightarrow> on_commerce l
      | CourseModes u \<Rightarrow> on_modes l
      | Enrollment \<Rightarrow> on_enrollment l)"

definition ex_lms :: lms where
  "ex_lms =
     \<lparr>on_token = Inr (http_response 200 ''{\"access_token\": \"tok\"}''
                       (Some (JObj [(''access_token'', JStr ''tok'')]))),
      on_root = Inr ((http_response 200 ''<html></html>'' None)\<lparr>cookies := [(''csrftoken'', ''abc'')]\<rparr>),
      on_catalog = Inr (http_response 200 ''{\"results\": [{\"id\": \"c1\"}], \"count\": 1}''
                       (Some (JObj [(''results'', JArr [JObj [(''id'', JStr ''c1'')]]),
                                    (''count'', JInt 1)]))),
      on_commerce = Inr (http_response 404 [] None),
      on_modes = Inr (http_response 404 [] None),
      on_enrollment = Inr (http_response 200 ''{}'' (Some (JObj [])))\<rparr>"

definition ex_client :: client where
  "ex_client = OpenEdxAPI ''client-id'' ''client-secret''"

text \<open>The two builtins as the examples need them: Python's \<open>upper\<close> on ASCII
  strings, and \<open>float\<close> on the few strings listed.\<close>

definition ascii_upper :: "char \<Rightarrow> char" where
  "ascii_upper c =
     (let n = (of_char c :: nat) in if 97 \<le> n \<and> n \<le> 122 then char_of (n - 32) else c)"

definition ex_float_of_str :: "string \<Rightarrow> pyfloat option" where
  "ex_float_of_str s =
     (if s = ''100.00'' then Some (Finite 100)
      else if s = ''inf'' then Some PosInf
      else if s = ''nan'' then Some NaN
      else None)"

definition ex_py :: builtins where
  "ex_py = \<lparr>float_of_str = ex_float_of_str, str_upper = map ascii_upper\<rparr>"

definition modes_response :: "json list \<Rightarrow> exn + response" where
  "modes_response ms = Inr (http_response 200 ''{\"modes\": [...]}'' (Some (JObj [(''modes'', JArr ms)])))"

definition ex_mode :: "string \<Rightarrow> int \<Rightarrow> string \<Rightarrow> json" where
  "ex_mode nm p cu = JObj [(''name'', JStr nm), (''price'', JInt p), (''currency'', JStr cu)]"

definition timed_out :: "exn + response" where
  "timed_out = Inl (TransportError ''timed out'')"

definition not_found :: "exn + response" where
  "not_found = Inr (http_response 404 [] None)"

definition garbled :: "exn + response" where
  "garbled = Inr (http_response 200 ''<html>'' None)"

definition modes_list :: "json list \<Rightarrow> exn + response" where
  "modes_list ms = Inr (http_response 200 ''[...]'' (Some (JArr ms)))"

definition no_token_page :: "exn + response" where
  "no_token_page = Inr (http_response 200 ''<html></html>'' None)"

definition unauthorized :: "exn + response" where
  "unauthorized = Inr (http_response 401 ''{\"detail\": \"expired\"}''
                        (Some (JObj [(''detail'', JStr ''expired'')])))"

definition cached_client :: client where
  "cached_client = ex_client\<lparr>access_token := JStr ''tok'', csrf_token := Some ''abc''\<rparr>"

definition ex_cfg :: config where
  "ex_cfg = \<lparr>openedx_client_id = ''client-id'', openedx_client_secret = ''client-secret'',
             stripe_webhook_secret = Some ''whsec'', stripe_currency = ''usd''\<rparr>"

definition ex_event :: "string \<Rightarrow> json" where
  "ex_event ty =
     JObj [(''type'', JStr ty),
           (''data'', JObj [(''object'',
              JObj [(''id'', JStr ''pi_1''),
                    (''metadata'', JObj [(''cart_id'', JStr ''1''), (''user_id'', JStr ''7'')])])])]"

text \<open>A signature check that accepts one signature and rejects an empty payload; the
  event it parses has the payload text as its type.\<close>

definition ex_construct_event :: "string \<Rightarrow> string option \<Rightarrow> string option \<Rightarrow> exn + json" where
  "ex_construct_event payload sig_header secret =
     (if sig_header \<noteq> Some ''t=1,v1=good'' \<or> secret \<noteq> Some ''whsec''
      then Inl SignatureVerificationError
      else if payload = [] then Inl ValueError
      else Inr (ex_event payload))"

definition ex_stripe_create :: "intent_params \<Rightarrow> exn + string" where
  "ex_stripe_create ps = Inr ''pi_1_secret''"

definition ex_cart :: cart where
  "ex_cart = \<lparr>cart_pk = 1, user_id = 7\<rparr>"

definition ex_user :: user where
  "ex_user = \<lparr>user_pk = 7, username = ''alice''\<rparr>"

definition ex_line :: "string \<Rightarrow> string \<Rightarrow> rat option \<Rightarrow> cart_item" where
  "ex_line cid md pr =
     \<lparr>cart_id = 1, course_id = cid, mode = md, price = pr, currency = Some ''USD''\<rparr>"

text \<open>A database that finds \<open>ex_cart\<close> under key \<open>"1"\<close> and \<open>ex_user\<close> under key
  \<open>"7"\<close>, with the given rows in \<open>cart_items\<close>.\<close>

definition ex_db :: "cart_item list \<Rightarrow> db" where
  "ex_db rows =
     \<lparr>cart_items = rows,
      carts_get = (\<lambda>k. if k = JStr ''1'' then Some ex_cart else None),
      users_get = (\<lambda>k. if k = JStr ''7'' then Some ex_user else None)\<rparr>"

section \<open>Properties of the cart\<close>

lemma has_item_iff:
  "has_item self cid d \<longleftrightarrow> (\<exists>it \<in> set (items self d). course_id it = cid)"
  by (auto simp: has_item_def items_def find_None_iff)

lemma items_add_item_new:
  "\<not> has_item self cid d \<Longrightarrow>
     items self (snd (add_item self cid md pr cur d)) =
       items self d @ [\<lparr>cart_id = cart_pk self, course_id = cid, mode = md, price = pr, currency = cur\<rparr>]"
  by (simp add: add_item_def items_def)

lemma has_item_after_add: "has_item self cid (snd (add_item self cid md pr cur d))"
proof (cases "has_item self cid d")
  case True
  then show ?thesis by (simp add: add_item_def)
next
  case False
  then show ?thesis
    by (simp add: has_item_iff items_add_item_new)
qed

text \<open>
  C7. Starting from a cart with no line for the course, \<open>add_item\<close> called twice with
  the same course id (whatever the other arguments of the second call) returns
  \<open>True\<close> and then \<open>False\<close>; the second call leaves the database as the first left it,
  so the cart holds exactly one line for the course, one line more than before the first
  call, and its total is the same after the second call as after the first.
\<close>

theorem add_item_twice:
  assumes "\<not> has_item self cid d"
      and "add_item self cid md pr cur d = (r1, d1)"
      and "add_item self cid md' pr' cur' d1 = (r2, d2)"
  shows "r1 = True \<and> r2 = False \<and> d2 = d1
       \<and> length (filter (\<lambda>it. course_id it = cid) (items self d2)) = 1
       \<and> length (items self d2) = Suc (length (items self d))
       \<and> cart_total self d2 = cart_total self d1"
proof -
  from assms(1,2) have r1: "r1 = True"
    and d1: "d1 = snd (add_item self cid md pr cur d)"
    by (auto simp: add_item_def)
  have "has_item self cid d1"
    unfolding d1 by (rule has_item_after_add)
  with assms(3) have r2: "r2 = False" and d2: "d2 = d1"
    by (auto simp: add_item_def)
  have its: "items self d1 =
      items self d @ [\<lparr>cart_id = cart_pk self, course_id = cid, mode = md, price = pr, currency = cur\<rparr>]"
    unfolding d1 using assms(1) by (rule items_add_item_new)
  from assms(1) have none: "filter (\<lambda>it. course_id it = cid) (items self d) = []"
    by (auto simp: has_item_iff filter_empty_conv)
  show ?thesis
    using r1 r2 d2 its none by simp
qed

theorem add_item_twice_witness:
  "\<not> has_item ex_cart ''c1'' (ex_db [])
   \<and> fst (add_item ex_cart ''c1'' ''verified'' (Some 50) (Some ''USD'') (ex_db [])) = True
   \<and> fst (add_item ex_cart ''c1'' ''audit'' None None
            (snd (add_item ex_cart ''c1'' ''verified'' (Some 50) (Some ''USD'') (ex_db [])))) = False
   \<and> length (items ex_cart (snd (add_item ex_cart ''c1'' ''audit'' None None
            (snd (add_item ex_cart ''c1'' ''verified'' (Some 50) (Some ''USD'') (ex_db [])))))) = 1"
proof -
  have h: "\<not> has_item ex_cart ''c1'' (ex_db [])"
    by (simp add: has_item_def ex_db_def)
  have l: "length (items ex_cart (ex_db [])) = 0"
    by (simp add: items_def ex_db_def)
  show ?thesis
    using h l add_item_twice [OF h surjective_pairing surjective_pairing,
        of "''verified''" "Some 50" "Some ''USD''" "''audit''" None None]
    by auto
qed

section \<open>What the credential helpers send and keep\<close>

lemma get_access_token_sent:
  "\<exists>xs. requests_sent (snd (get_access_token srv c)) = requests_sent c @ xs
        \<and> (\<forall>rq \<in> set xs. req_url rq = OAuthToken)
        \<and> length xs = (if py_truthy (access_token c) then 0 else 1)"
  by (auto simp: get_access_token_def session_send_def token_request_def
      split: sum.splits prod.splits)

lemma get_access_token_cached:
  "py_truthy (access_token c) \<Longrightarrow> get_access_token srv c = (access_token c, c)"
  by (simp add: get_access_token_def)

lemma get_access_token_fields:
  "enroll_calls (snd (get_access_token srv c)) = enroll_calls c"
  "csrf_token (snd (get_access_token srv c)) = csrf_token c"
  by (auto simp: get_access_token_def session_send_def split: sum.splits prod.splits)

lemma get_csrf_token_sent:
  "\<exists>xs. requests_sent (snd (get_csrf_token srv c)) = requests_sent c @ xs
        \<and> (\<forall>rq \<in> set xs. req_url rq = SiteRoot)
        \<and> length xs = (if str_truthy (csrf_token c) then 0 else 1)"
  by (auto simp: get_csrf_token_def session_send_def csrf_request_def Let_def
      split: sum.splits prod.splits)

lemma get_csrf_token_fields:
  "enroll_calls (snd (get_csrf_token srv c)) = enroll_calls c"
  "access_token (snd (get_csrf_token srv c)) = access_token c"
  by (auto simp: get_csrf_token_def session_send_def Let_def split: sum.splits prod.splits)

lemma get_auth_headers_sent:
  "\<exists>xs. requests_sent (snd (get_auth_headers b srv c)) = requests_sent c @ xs
        \<and> (\<forall>rq \<in> set xs. req_url rq = OAuthToken \<or> req_url rq = SiteRoot)"
proof -
  obtain l c1 where 1: "get_access_token srv c = (l, c1)" by (cases "get_access_token srv c")
  obtain t c2 where 2: "get_access_token srv c1 = (t, c2)" by (cases "get_access_token srv c1")
  obtain s c3 where 3: "get_csrf_token srv c2 = (s, c3)" by (cases "get_csrf_token srv c2")
  from get_access_token_sent [of srv c] 1 obtain xs where
    xs: "requests_sent c1 = requests_sent c @ xs" "\<forall>rq \<in> set xs. req_url rq = OAuthToken"
    by auto
  from get_access_token_sent [of srv c1] 2 obtain ys where
    ys: "requests_sent c2 = requests_sent c1 @ ys" "\<forall>rq \<in> set ys. req_url rq = OAuthToken"
    by auto
  from get_csrf_token_sent [of srv c2] 3 obtain zs where
    zs: "requests_sent c3 = requests_sent c2 @ zs" "\<forall>rq \<in> set zs. req_url rq = SiteRoot"
    by auto
  show ?thesis
    using 1 2 3 xs ys zs by (auto simp: get_auth_headers_def Let_def)
qed

section \<open>The two scans over a list of modes\<close>

lemma scan_named_first:
  "list_all unnamed_mode pre \<Longrightarrow> named_mode m \<Longrightarrow> mode_price py m = Inr p \<Longrightarrow>
   mode_currency py m = Inr cu \<Longrightarrow>
   scan_named py src (pre @ m # post) = Inr (Some (price_dict p cu src))"
  by (induction pre) (auto simp: unnamed_mode_def named_mode_def split: sum.splits)

lemma scan_named_none:
  "list_all unnamed_mode ms \<Longrightarrow> scan_named py src ms = Inr None"
  by (induction ms) (auto simp: unnamed_mode_def split: sum.splits)

lemma scan_positive_first:
  "list_all (unpriced_mode py) pre \<Longrightarrow> mode_price py m = Inr p \<Longrightarrow> float_pos p \<Longrightarrow>
   mode_currency py m = Inr cu \<Longrightarrow>
   scan_positive py src (pre @ m # post) = Inr (Some (price_dict p cu src))"
  by (induction pre) (auto simp: unpriced_mode_def split: sum.splits)

lemma scan_positive_none:
  "list_all (unpriced_mode py) ms \<Longrightarrow> scan_positive py src ms = Inr None"
  by (induction ms) (auto simp: unpriced_mode_def split: sum.splits)

lemma offers_nothing_scans:
  assumes "offers_nothing py ms"
  shows "scan_named py src ms = Inr None" and "scan_positive py src ms = Inr None"
proof -
  from assms have "list_all unnamed_mode ms" and "list_all (unpriced_mode py) ms"
    by (simp_all add: offers_nothing_def list_all_iff)
  then show "scan_named py src ms = Inr None" and "scan_positive py src ms = Inr None"
    by (simp_all add: scan_named_none scan_positive_none)
qed

lemma scan_named_Cons_None:
  assumes "scan_named py src (m # ms) = Inr None"
  shows "unnamed_mode m \<and> scan_named py src ms = Inr None"
proof (cases "py_get m ''name'' JNull")
  case (Inl e)
  with assms show ?thesis by simp
next
  case (Inr nm)
  show ?thesis
  proof (cases "is_named nm")
    case True
    with Inr assms show ?thesis
      by (simp split: sum.splits)
  next
    case False
    with Inr assms show ?thesis
      by (simp add: unnamed_mode_def)
  qed
qed

lemma scan_positive_Cons_None:
  assumes "scan_positive py src (m # ms) = Inr None"
  shows "unpriced_mode py m \<and> scan_positive py src ms = Inr None"
proof (cases "mode_price py m")
  case (Inl e)
  with assms show ?thesis by simp
next
  case (Inr p)
  show ?thesis
  proof (cases "float_pos p")
    case True
    with Inr assms show ?thesis
      by (simp split: sum.splits)
  next
    case False
    with Inr assms show ?thesis
      by (simp add: unpriced_mode_def)
  qed
qed

lemma scans_none_offers_nothing:
  "scan_named py src ms = Inr None \<Longrightarrow> scan_positive py src' ms = Inr None \<Longrightarrow> offers_nothing py ms"
proof (induction ms)
  case Nil
  then show ?case by (simp add: offers_nothing_def)
next
  case (Cons m ms)
  from Cons.prems(1) have 1: "unnamed_mode m" "scan_named py src ms = Inr None"
    using scan_named_Cons_None by blast+
  from Cons.prems(2) have 2: "unpriced_mode py m" "scan_positive py src' ms = Inr None"
    using scan_positive_Cons_None by blast+
  from Cons.IH 1 2 show ?case by (simp add: offers_nothing_def)
qed

lemma two_pass_None_iff:
  "(case scan_named py src ms of Inl e \<Rightarrow> Inl e | Inr (Some info) \<Rightarrow> Inr (Some info)
    | Inr None \<Rightarrow> scan_positive py src ms) = Inr None \<longleftrightarrow> offers_nothing py ms"
proof
  assume "offers_nothing py ms"
  then show "(case scan_named py src ms of Inl e \<Rightarrow> Inl e | Inr (Some info) \<Rightarrow> Inr (Some info)
    | Inr None \<Rightarrow> scan_positive py src ms) = Inr None"
    by (simp add: offers_nothing_scans)
next
  assume a: "(case scan_named py src ms of Inl e \<Rightarrow> Inl e | Inr (Some info) \<Rightarrow> Inr (Some info)
    | Inr None \<Rightarrow> scan_positive py src ms) = Inr None"
  then have "scan_named py src ms = Inr None"
    by (cases "scan_named py src ms") (auto split: option.splits)
  moreover with a have "scan_positive py src ms = Inr None" by simp
  ultimately show "offers_nothing py ms" by (rule scans_none_offers_nothing)
qed

section \<open>The stages of \<open>get_course_price\<close>\<close>

lemma get_course_price_stage1:
  assumes "answers srv (CommerceCourse course) a"
  shows "(case a of Inl e \<Rightarrow> Inl e | Inr resp \<Rightarrow> commerce_prices py resp) = Inl e \<Longrightarrow>
           fst (get_course_price py srv course c) = error_price"
    and "(case a of Inl e \<Rightarrow> Inl e | Inr resp \<Rightarrow> commerce_prices py resp) = Inr (Some info) \<Longrightarrow>
           fst (get_course_price py srv course c) = JObj info
           \<and> (\<forall>rq \<in> set (drop (length (requests_sent c))
                              (requests_sent (snd (get_course_price py srv course c)))).
                 \<forall>u. req_url rq \<noteq> CourseModes u)"
proof -
  obtain hs1 c1 where 1: "get_auth_headers True srv c = (hs1, c1)"
    by (cases "get_auth_headers True srv c")
  from get_auth_headers_sent [of True srv c] 1 obtain xs where
    xs: "requests_sent c1 = requests_sent c @ xs"
        "\<forall>rq \<in> set xs. req_url rq = OAuthToken \<or> req_url rq = SiteRoot"
    by auto
  have s: "srv (requests_sent c1) (get_request (CommerceCourse course) hs1) = a"
    using assms by (simp add: answers_def get_request_def)
  show "(case a of Inl e \<Rightarrow> Inl e | Inr resp \<Rightarrow> commerce_prices py resp) = Inl e \<Longrightarrow>
           fst (get_course_price py srv course c) = error_price"
    using 1 s by (simp add: get_course_price_def session_send_def)
  show "(case a of Inl e \<Rightarrow> Inl e | Inr resp \<Rightarrow> commerce_prices py resp) = Inr (Some info) \<Longrightarrow>
           fst (get_course_price py srv course c) = JObj info
           \<and> (\<forall>rq \<in> set (drop (length (requests_sent c))
                              (requests_sent (snd (get_course_price py srv course c)))).
                 \<forall>u. req_url rq \<noteq> CourseModes u)"
    using 1 s xs by (auto simp: get_course_price_def session_send_def get_request_def)
qed

lemma get_course_price_stage2:
  assumes "answers srv (CommerceCourse course) a"
      and "(case a of Inl e \<Rightarrow> Inl e | Inr resp \<Rightarrow> commerce_prices py resp) = Inr None"
      and "answers srv (CourseModes course) b"
  shows "fst (get_course_price py srv course c) =
           (case (case b of Inl e \<Rightarrow> Inl e | Inr resp \<Rightarrow> modes_prices py resp) of
              Inl e \<Rightarrow> error_price
            | Inr (Some info) \<Rightarrow> JObj info
            | Inr None \<Rightarrow> default_price)"
proof -
  obtain hs1 c1 where 1: "get_auth_headers True srv c = (hs1, c1)"
    by (cases "get_auth_headers True srv c")
  define c2 where "c2 = snd (session_send srv (get_request (CommerceCourse course) hs1) c1)"
  obtain hs2 c3 where 2: "get_auth_headers True srv c2 = (hs2, c3)"
    by (cases "get_auth_headers True srv c2")
  have s1: "srv (requests_sent c1) (get_request (CommerceCourse course) hs1) = a"
    using assms(1) by (simp add: answers_def get_request_def)
  have s2: "srv (requests_sent c3) (get_request (CourseModes course) hs2) = b"
    using assms(3) by (simp add: answers_def get_request_def)
  show ?thesis
    using 1 2 s1 s2 assms(2)
    by (simp add: get_course_price_def session_send_def c2_def split: sum.splits option.splits)
qed

lemma answers_serve:
  "answers (serve l) OAuthToken (on_token l)"
  "answers (serve l) SiteRoot (on_root l)"
  "answers (serve l) CatalogCourses (on_catalog l)"
  "answers (serve l) (CommerceCourse u) (on_commerce l)"
  "answers (serve l) (CourseModes u) (on_modes l)"
  "answers (serve l) Enrollment (on_enrollment l)"
  by (simp_all add: answers_def serve_def)

lemma upper_examples:
  "str_upper ex_py ''usd'' = ''USD''" "str_upper ex_py ''eur'' = ''EUR''"
  "str_upper ex_py ''USD'' = ''USD''"
  by code_simp+

section \<open>The conversion of an \<open>int\<close> to a float\<close>

text \<open>Exact up to \<open>2^53\<close>, rounded to the nearest double above it with a tie going
  to the even significand, an error beyond the largest double.\<close>

lemma bit_length_bounds: "2 ^ k \<le> n \<Longrightarrow> n < 2 ^ Suc k \<Longrightarrow> bit_length n = Suc k"
proof (induction k arbitrary: n)
  case 0
  then have "n = 1" by simp
  then show ?case by (simp add: bit_length.simps [of "Suc 0"] bit_length.simps [of 0])
next
  case (Suc k)
  from Suc.prems have "2 ^ k \<le> n div 2" and "n div 2 < 2 ^ Suc k"
    by auto
  then have "bit_length (n div 2) = Suc k" by (rule Suc.IH)
  moreover from Suc.prems have "n \<noteq> 0" by auto
  ultimately show ?case by (simp add: bit_length.simps [of n])
qed

lemma float_of_int_small: "\<bar>n\<bar> < 2 ^ 53 \<Longrightarrow> float_of_int n = Inr (Finite (of_int n))"
  by (simp add: float_of_int_def)

lemma bit_length_near_2_53: "bit_length (2 ^ 53) = 54" "bit_length (2 ^ 53 + 1) = 54" "bit_length (2 ^ 53 + 3) = 54"
  using bit_length_bounds [of 53 "2 ^ 53"] bit_length_bounds [of 53 "2 ^ 53 + 1"]
    bit_length_bounds [of 53 "2 ^ 53 + 3"]
  by simp_all

lemma bit_length_near_2_1024: "bit_length (2 ^ 1024 - 2 ^ 970 - 1) = 1024" "bit_length (2 ^ 1024 - 2 ^ 970) = 1024"
  using bit_length_bounds [of 1023 "2 ^ 1024 - 2 ^ 970 - 1"]
    bit_length_bounds [of 1023 "2 ^ 1024 - 2 ^ 970"]
  by simp_all

lemma bit_length_10_400: "bit_length (10 ^ 400) = 1329"
  using bit_length_bounds [of 1328 "10 ^ 400"] by simp

lemma float_of_int_examples:
  "float_of_int (2 ^ 53) = Inr (Finite (2 ^ 53))"
  "float_of_int (- (2 ^ 53)) = Inr (Finite (- (2 ^ 53)))"
  "float_of_int (2 ^ 53 + 1) = Inr (Finite (2 ^ 53))"
  "float_of_int (2 ^ 53 + 3) = Inr (Finite (2 ^ 53 + 4))"
  by (simp_all add: float_of_int_def Let_def bit_length_near_2_53 [simplified])

lemma float_of_int_overflow:
  "float_of_int (2 ^ 1024 - 2 ^ 970 - 1) = Inr (Finite (2 ^ 1024 - 2 ^ 971))"
  "float_of_int (2 ^ 1024 - 2 ^ 970) = Inl OverflowError"
  "float_of_int (10 ^ 400) = Inl OverflowError"
  "float_of_int (- (10 ^ 400)) = Inl OverflowError"
  by (simp_all add: float_of_int_def Let_def bit_length_near_2_1024 [simplified] bit_length_10_400 [simplified])

lemma py_float_exact:
  assumes "exact_price v p"
  shows "py_float py v = Inr p"
proof (cases v)
  case (JInt n)
  with assms have n: "\<bar>n\<bar> \<le> 2 ^ 53" and p: "p = Finite (of_int n)"
    by (simp_all add: exact_price_def)
  have "float_of_int n = Inr (Finite (of_int n))"
  proof (cases "\<bar>n\<bar> < 2 ^ 53")
    case True
    then show ?thesis by (rule float_of_int_small)
  next
    case False
    with n have "n = 2 ^ 53 \<or> n = - (2 ^ 53)" by linarith
    then show ?thesis using float_of_int_examples(1,2) by auto
  qed
  with JInt p show ?thesis by simp
next
  case (JFloat x)
  with assms show ?thesis by (simp add: exact_price_def)
qed (use assms in \<open>simp_all add: exact_price_def\<close>)

section \<open>A commerce response with a list of modes\<close>

lemma commerce_prices_modes:
  "status_code rc = 200 \<Longrightarrow> json_body rc = Some (JObj body) \<Longrightarrow>
   map_of body ''modes'' = Some (JArr ms) \<Longrightarrow>
   commerce_prices py rc =
     (case scan_named py ''commerce_api'' ms of
        Inl e \<Rightarrow> Inl e
      | Inr (Some info) \<Rightarrow> Inr (Some info)
      | Inr None \<Rightarrow> scan_positive py ''commerce_api'' ms)"
  by (simp add: commerce_prices_def response_json_def)

section \<open>Pricing: which mode decides\<close>

text \<open>What the entries of a mode dictionary give to the two loops.\<close>

lemma named_mode_data:
  "map_of m ''name'' = Some (JStr nm) \<Longrightarrow> nm = ''professional'' \<or> nm = ''verified'' \<Longrightarrow>
   named_mode (JObj m)"
  by (auto simp: named_mode_def is_named_def)

lemma mode_price_exact:
  "map_of m ''price'' = Some v \<Longrightarrow> exact_price v p \<Longrightarrow> mode_price py (JObj m) = Inr p"
  by (simp add: mode_price_def py_float_exact)

lemma mode_price_absent:
  "map_of m ''price'' = None \<Longrightarrow> mode_price py (JObj m) = Inr (Finite 0)"
  by (simp add: mode_price_def float_of_int_small)

lemma mode_currency_data:
  "map_of m ''currency'' = Some (JStr cur) \<or> map_of m ''currency'' = None \<and> cur = ''USD'' \<Longrightarrow>
   mode_currency py (JObj m) = Inr (str_upper py cur)"
  by (auto simp: mode_currency_def)

text \<open>
  C5 (amended). When the commerce endpoint answers 200 with a list of modes, and the
  first mode of the list named \<open>professional\<close> or \<open>verified\<close> has a positive
  price that is a float, or an \<open>int\<close> of magnitude at most \<open>2^53\<close>, and has a
  currency string, \<open>get_course_price\<close> returns exactly that price as a float and
  the result of \<open>upper()\<close> on that currency with source \<open>commerce_api\<close>,
  whatever unnamed mode dictionaries stand before it and whatever stands after it. The
  claim for a named mode that is not the first named one does not hold, and a larger
  \<open>int\<close> is returned as the nearest double or, beyond the doubles, ends in the error
  result.
\<close>

theorem first_named_mode_price:
  assumes "answers srv (CommerceCourse course) (Inr rc)"
      and "status_code rc = 200"
      and "json_body rc = Some (JObj body)"
      and "map_of body ''modes'' = Some (JArr (pre @ JObj m # post))"
      and "list_all unnamed_mode pre"
      and "map_of m ''name'' = Some (JStr nm)"
      and "nm = ''professional'' \<or> nm = ''verified''"
      and "map_of m ''price'' = Some v"
      and "exact_price v p"
      and "float_pos p"
      and "map_of m ''currency'' = Some (JStr cur)"
  shows "fst (get_course_price py srv course c)
           = JObj [(''price'', JFloat p), (''currency'', JStr (str_upper py cur)),
                   (''source'', JStr ''commerce_api'')]"
proof -
  have n: "named_mode (JObj m)"
    using assms(6,7) by (rule named_mode_data)
  have p: "mode_price py (JObj m) = Inr p"
    using assms(8,9) by (rule mode_price_exact)
  have cu: "mode_currency py (JObj m) = Inr (str_upper py cur)"
    using assms(11) by (simp add: mode_currency_data)
  have "scan_named py ''commerce_api'' (pre @ JObj m # post)
          = Inr (Some (price_dict p (str_upper py cur) ''commerce_api''))"
    using assms(5) n p cu by (rule scan_named_first)
  with assms(2,3,4) have "commerce_prices py rc
          = Inr (Some (price_dict p (str_upper py cur) ''commerce_api''))"
    by (simp add: commerce_prices_modes)
  with get_course_price_stage1(2) [OF assms(1), of py
      "price_dict p (str_upper py cur) ''commerce_api''" c]
  show ?thesis by (simp add: price_dict_def)
qed

theorem first_named_mode_price_witness:
  "fst (get_course_price ex_py
         (serve (ex_lms\<lparr>on_commerce := modes_response
            [ex_mode ''audit'' 0 ''usd'', ex_mode ''honor'' 20 ''usd'',
             ex_mode ''verified'' 100 ''eur'', ex_mode ''professional'' 300 ''usd'']\<rparr>))
         (JStr ''c1'') ex_client)
   = JObj [(''price'', JFloat (Finite 100)), (''currency'', JStr ''EUR''),
           (''source'', JStr ''commerce_api'')]"
proof -
  let ?pre = "[ex_mode ''audit'' 0 ''usd'', ex_mode ''honor'' 20 ''usd'']"
  let ?m = "[(''name'', JStr ''verified''), (''price'', JInt 100), (''currency'', JStr ''eur'')]"
  let ?post = "[ex_mode ''professional'' 300 ''usd'']"
  let ?rc = "http_response 200 ''{\"modes\": [...]}''
               (Some (JObj [(''modes'', JArr (?pre @ JObj ?m # ?post))]))"
  let ?l = "ex_lms\<lparr>on_commerce := Inr ?rc\<rparr>"
  have a: "answers (serve ?l) (CommerceCourse (JStr ''c1'')) (Inr ?rc)"
    using answers_serve(4) [of ?l] by simp
  have 1: "status_code ?rc = 200"
    "json_body ?rc = Some (JObj [(''modes'', JArr (?pre @ JObj ?m # ?post))])"
    by (simp_all add: http_response_def)
  have 2: "map_of [(''modes'', JArr (?pre @ JObj ?m # ?post))] ''modes''
             = Some (JArr (?pre @ JObj ?m # ?post))"
    by simp
  have 3: "list_all unnamed_mode ?pre"
    by (simp add: unnamed_mode_def ex_mode_def is_named_def)
  have 4: "map_of ?m ''name'' = Some (JStr ''verified'')"
    "''verified'' = ''professional'' \<or> ''verified'' = ''verified''"
    "map_of ?m ''price'' = Some (JInt 100)"
    "exact_price (JInt 100) (Finite 100)"
    "float_pos (Finite 100)"
    "map_of ?m ''currency'' = Some (JStr ''eur'')"
    by (simp_all add: exact_price_def)
  show ?thesis
    using first_named_mode_price [OF a 1 2 3 4, of ex_py ex_client]
    by (simp add: modes_response_def ex_mode_def upper_examples)
qed

text \<open>
  C5 as stated fails: the response below holds a mode named \<open>verified\<close> with price
  100 and currency \<open>eur\<close>, but a mode named \<open>professional\<close> with price 0 stands
  before it and is the one returned.
\<close>

theorem later_named_mode_ignored:
  "fst (get_course_price ex_py
         (serve (ex_lms\<lparr>on_commerce := modes_response
            [ex_mode ''professional'' 0 ''usd'', ex_mode ''verified'' 100 ''eur'']\<rparr>))
         (JStr ''c1'') ex_client)
   = JObj [(''price'', JFloat (Finite 0)), (''currency'', JStr ''USD''),
           (''source'', JStr ''commerce_api'')]
   \<and> fst (get_course_price ex_py
         (serve (ex_lms\<lparr>on_commerce := modes_response
            [ex_mode ''professional'' 0 ''usd'', ex_mode ''verified'' 100 ''eur'']\<rparr>))
         (JStr ''c1'') ex_client)
   \<noteq> JObj [(''price'', JFloat (Finite 100)), (''currency'', JStr ''EUR''),
           (''source'', JStr ''commerce_api'')]"
  by code_simp

lemma scan_named_raises:
  "list_all unnamed_mode pre \<Longrightarrow> named_mode m \<Longrightarrow> mode_price py m = Inl e \<Longrightarrow>
   scan_named py src (pre @ m # post) = Inl e"
  by (induction pre) (auto simp: unnamed_mode_def named_mode_def split: sum.splits)

lemma scan_positive_raises:
  "list_all (unpriced_mode py) pre \<Longrightarrow> mode_price py m = Inl e \<Longrightarrow>
   scan_positive py src (pre @ m # post) = Inl e"
  by (induction pre) (auto simp: unpriced_mode_def split: sum.splits)

text \<open>
  C10. In \<open>get_course_price\<close> the first pass over the commerce modes takes the first
  mode named \<open>professional\<close> or \<open>verified\<close> without looking at its price: when
  that mode has price 0 or no price field, the result is the price 0.0, the mode's
  upper-cased currency (\<open>USD\<close> when it has none) and source \<open>commerce_api\<close>,
  whatever modes follow (a later positive price included), and the course-modes endpoint
  is not asked.
\<close>

theorem named_mode_taken_without_price_check:
  assumes "answers srv (CommerceCourse course) (Inr rc)"
      and "status_code rc = 200"
      and "json_body rc = Some (JObj body)"
      and "map_of body ''modes'' = Some (JArr (pre @ JObj m # post))"
      and "list_all unnamed_mode pre"
      and "map_of m ''name'' = Some (JStr nm)"
      and "nm = ''professional'' \<or> nm = ''verified''"
      and "map_of m ''price'' = None \<or> map_of m ''price'' = Some (JInt 0)
           \<or> map_of m ''price'' = Some (JFloat (Finite 0))"
      and "map_of m ''currency'' = Some (JStr cur)
           \<or> map_of m ''currency'' = None \<and> cur = ''USD''"
  shows "fst (get_course_price py srv course c)
           = JObj [(''price'', JFloat (Finite 0)), (''currency'', JStr (str_upper py cur)),
                   (''source'', JStr ''commerce_api'')]
       \<and> (\<forall>rq \<in> set (drop (length (requests_sent c))
                         (requests_sent (snd (get_course_price py srv course c)))).
           \<forall>u. req_url rq \<noteq> CourseModes u)"
proof -
  have n: "named_mode (JObj m)"
    using assms(6,7) by (rule named_mode_data)
  from assms(8) have p: "mode_price py (JObj m) = Inr (Finite 0)"
    by (auto simp: mode_price_def float_of_int_small)
  have cu: "mode_currency py (JObj m) = Inr (str_upper py cur)"
    using assms(9) by (rule mode_currency_data)
  have "scan_named py ''commerce_api'' (pre @ JObj m # post)
          = Inr (Some (price_dict (Finite 0) (str_upper py cur) ''commerce_api''))"
    using assms(5) n p cu by (rule scan_named_first)
  with assms(2,3,4) have "commerce_prices py rc
          = Inr (Some (price_dict (Finite 0) (str_upper py cur) ''commerce_api''))"
    by (simp add: commerce_prices_modes)
  with get_course_price_stage1(2) [OF assms(1), of py
      "price_dict (Finite 0) (str_upper py cur) ''commerce_api''" c]
  show ?thesis by (simp add: price_dict_def)
qed

theorem named_mode_taken_without_price_check_witness:
  "fst (get_course_price ex_py
         (serve (ex_lms\<lparr>on_commerce := modes_response
            [ex_mode ''audit'' 0 ''usd'',
             JObj [(''name'', JStr ''verified''), (''currency'', JStr ''eur'')],
             ex_mode ''honor'' 50 ''usd'']\<rparr>))
         (JStr ''c1'') ex_client)
   = JObj [(''price'', JFloat (Finite 0)), (''currency'', JStr ''EUR''),
           (''source'', JStr ''commerce_api'')]
   \<and> map req_url (requests_sent (snd (get_course_price ex_py
         (serve (ex_lms\<lparr>on_commerce := modes_response
            [ex_mode ''audit'' 0 ''usd'',
             JObj [(''name'', JStr ''verified''), (''currency'', JStr ''eur'')],
             ex_mode ''honor'' 50 ''usd'']\<rparr>))
         (JStr ''c1'') ex_client)))
     = [OAuthToken, SiteRoot, CommerceCourse (JStr ''c1'')]"
proof -
  let ?pre = "[ex_mode ''audit'' 0 ''usd'']"
  let ?m = "[(''name'', JStr ''verified''), (''currency'', JStr ''eur'')]"
  let ?post = "[ex_mode ''honor'' 50 ''usd'']"
  let ?rc = "http_response 200 ''{\"modes\": [...]}''
               (Some (JObj [(''modes'', JArr (?pre @ JObj ?m # ?post))]))"
  let ?l = "ex_lms\<lparr>on_commerce := Inr ?rc\<rparr>"
  have a: "answers (serve ?l) (CommerceCourse (JStr ''c1'')) (Inr ?rc)"
    using answers_serve(4) [of ?l] by simp
  have 1: "status_code ?rc = 200"
    "json_body ?rc = Some (JObj [(''modes'', JArr (?pre @ JObj ?m # ?post))])"
    by (simp_all add: http_response_def)
  have 2: "map_of [(''modes'', JArr (?pre @ JObj ?m # ?post))] ''modes''
             = Some (JArr (?pre @ JObj ?m # ?post))"
    by simp
  have 3: "list_all unnamed_mode ?pre"
    by (simp add: unnamed_mode_def ex_mode_def is_named_def)
  have 4: "map_of ?m ''name'' = Some (JStr ''verified'')"
    "''verified'' = ''professional'' \<or> ''verified'' = ''verified''"
    "map_of ?m ''price'' = None \<or> map_of ?m ''price'' = Some (JInt 0)
           \<or> map_of ?m ''price'' = Some (JFloat (Finite 0))"
    "map_of ?m ''currency'' = Some (JStr ''eur'')
           \<or> map_of ?m ''currency'' = None \<and> ''eur'' = ''USD''"
    by simp_all
  have 7: "map req_url (requests_sent (snd (get_course_price ex_py
         (serve (ex_lms\<lparr>on_commerce := modes_response
            [ex_mode ''audit'' 0 ''usd'',
             JObj [(''name'', JStr ''verified''), (''currency'', JStr ''eur'')],
             ex_mode ''honor'' 50 ''usd'']\<rparr>))
         (JStr ''c1'') ex_client)))
     = [OAuthToken, SiteRoot, CommerceCourse (JStr ''c1'')]"
    by code_simp
  show ?thesis
    using named_mode_taken_without_price_check [OF a 1 2 3 4, of ex_py ex_client] 7
    by (simp add: modes_response_def upper_examples)
qed

text \<open>A price of the first named mode that \<open>float\<close> does not convert, an
  \<open>int\<close> beyond the doubles for one, ends the resolution in the error result.\<close>

lemma named_mode_price_not_convertible:
  assumes "answers srv (CommerceCourse course) (Inr rc)"
      and "status_code rc = 200"
      and "json_body rc = Some (JObj body)"
      and "map_of body ''modes'' = Some (JArr (pre @ JObj m # post))"
      and "list_all unnamed_mode pre"
      and "map_of m ''name'' = Some (JStr nm)"
      and "nm = ''professional'' \<or> nm = ''verified''"
      and "map_of m ''price'' = Some v"
      and "py_float py v = Inl e"
  shows "fst (get_course_price py srv course c) = error_price"
proof -
  have n: "named_mode (JObj m)"
    using assms(6,7) by (rule named_mode_data)
  have p: "mode_price py (JObj m) = Inl e"
    using assms(8,9) by (simp add: mode_price_def)
  have "scan_named py ''commerce_api'' (pre @ JObj m # post) = Inl e"
    using assms(5) n p by (rule scan_named_raises)
  with assms(2,3,4) have "commerce_prices py rc = Inl e"
    by (simp add: commerce_prices_modes)
  with get_course_price_stage1(1) [OF assms(1), of py e c]
  show ?thesis by simp
qed

text \<open>The second pass, reached only when no mode is named, is the one that asks for a
  positive price: it skips the modes whose price is not positive.\<close>

lemma second_pass_requires_positive:
  assumes "answers srv (CommerceCourse course) (Inr rc)"
      and "status_code rc = 200"
      and "json_body rc = Some (JObj body)"
      and "map_of body ''modes'' = Some (JArr (pre @ m # post))"
      and "list_all unnamed_mode (pre @ m # post)"
      and "list_all (unpriced_mode py) pre"
      and "mode_price py m = Inr p"
      and "float_pos p"
      and "mode_currency py m = Inr cu"
  shows "fst (get_course_price py srv course c)
           = JObj [(''price'', JFloat p), (''currency'', JStr cu), (''source'', JStr ''commerce_api'')]"
proof -
  have "scan_named py ''commerce_api'' (pre @ m # post) = Inr None"
    using assms(5) by (rule scan_named_none)
  moreover have "scan_positive py ''commerce_api'' (pre @ m # post)
      = Inr (Some (price_dict p cu ''commerce_api''))"
    using assms(6,7,8,9) by (rule scan_positive_first)
  ultimately have "commerce_prices py rc = Inr (Some (price_dict p cu ''commerce_api''))"
    using assms(2,3,4) by (simp add: commerce_prices_modes)
  with get_course_price_stage1(2) [OF assms(1), of py "price_dict p cu ''commerce_api''" c]
  show ?thesis by (simp add: price_dict_def)
qed

text \<open>A response gives no price exactly when it is silent in the sense above.\<close>

lemma commerce_prices_None_iff:
  "commerce_prices py rc = Inr None \<longleftrightarrow> commerce_silent py rc"
proof (cases "status_code rc = 200")
  case False
  then show ?thesis by (simp add: commerce_prices_def commerce_silent_def)
next
  case True
  show ?thesis
  proof (cases "json_body rc")
    case None
    with True show ?thesis
      by (simp add: commerce_prices_def commerce_silent_def response_json_def)
  next
    case (Some data)
    show ?thesis
    proof (cases "py_get data ''modes'' (JArr [])")
      case (Inl e)
      with True Some show ?thesis
        by (simp add: commerce_prices_def commerce_silent_def response_json_def)
    next
      case (Inr ms)
      show ?thesis
      proof (cases "py_iter ms")
        case (Inl e)
        with True Some Inr show ?thesis
          by (simp add: commerce_prices_def commerce_silent_def response_json_def)
      next
        case iter: (Inr modes)
        with True Some Inr show ?thesis
          using two_pass_None_iff [of py "''commerce_api''" modes]
          by (simp add: commerce_prices_def commerce_silent_def response_json_def)
      qed
    qed
  qed
qed

lemma modes_prices_None_iff:
  "modes_prices py rm = Inr None \<longleftrightarrow> modes_silent py rm"
proof (cases "status_code rm = 200")
  case False
  then show ?thesis by (simp add: modes_prices_def modes_silent_def)
next
  case True
  show ?thesis
  proof (cases "json_body rm")
    case None
    with True show ?thesis
      by (simp add: modes_prices_def modes_silent_def response_json_def)
  next
    case (Some data)
    show ?thesis
    proof (cases "py_iter data")
      case (Inl e)
      with True Some show ?thesis
        by (simp add: modes_prices_def modes_silent_def response_json_def)
    next
      case iter: (Inr modes)
      with True Some show ?thesis
        using two_pass_None_iff [of py "''course_modes_api''" modes]
        by (simp add: modes_prices_def modes_silent_def response_json_def)
    qed
  qed
qed

section \<open>Pricing: the fallbacks\<close>

lemma scan_named_dict:
  "scan_named py src ms = Inr (Some info) \<Longrightarrow> \<exists>p cu. info = price_dict p cu src"
proof (induction ms)
  case Nil
  then show ?case by simp
next
  case (Cons m ms)
  then show ?case
    by (cases "py_get m ''name'' JNull"; cases "mode_price py m"; cases "mode_currency py m")
       (auto split: if_splits)
qed

lemma scan_positive_dict:
  "scan_positive py src ms = Inr (Some info) \<Longrightarrow> \<exists>p cu. info = price_dict p cu src"
proof (induction ms)
  case Nil
  then show ?case by simp
next
  case (Cons m ms)
  then show ?case
    by (cases "mode_price py m"; cases "mode_currency py m") (auto split: if_splits)
qed

lemma two_pass_dict:
  assumes "(case scan_named py src ms of Inl e \<Rightarrow> Inl e | Inr (Some info) \<Rightarrow> Inr (Some info)
            | Inr None \<Rightarrow> scan_positive py src ms) = Inr (Some info)"
  shows "\<exists>p cu. info = price_dict p cu src"
proof (cases "scan_named py src ms")
  case (Inl e)
  with assms show ?thesis by simp
next
  case (Inr found)
  show ?thesis
  proof (cases found)
    case None
    with Inr assms have "scan_positive py src ms = Inr (Some info)" by simp
    then show ?thesis by (rule scan_positive_dict)
  next
    case (Some i)
    with Inr assms have "scan_named py src ms = Inr (Some info)" by simp
    then show ?thesis by (rule scan_named_dict)
  qed
qed

lemma commerce_prices_dict:
  assumes "commerce_prices py rc = Inr (Some info)"
  shows "\<exists>p cu src. info = price_dict p cu src"
proof -
  from assms obtain ms where
    "(case scan_named py ''commerce_api'' ms of Inl e \<Rightarrow> Inl e | Inr (Some info) \<Rightarrow> Inr (Some info)
      | Inr None \<Rightarrow> scan_positive py ''commerce_api'' ms) = Inr (Some info)"
    by (cases "response_json rc"; cases "py_get (projr (response_json rc)) ''modes'' (JArr [])";
        cases "py_iter (projr (py_get (projr (response_json rc)) ''modes'' (JArr [])))")
       (auto simp: commerce_prices_def split: if_splits)
  then show ?thesis using two_pass_dict by blast
qed

lemma modes_prices_dict:
  assumes "modes_prices py rm = Inr (Some info)"
  shows "\<exists>p cu src. info = price_dict p cu src"
proof -
  from assms obtain ms where
    "(case scan_named py ''course_modes_api'' ms of Inl e \<Rightarrow> Inl e
      | Inr (Some info) \<Rightarrow> Inr (Some info)
      | Inr None \<Rightarrow> scan_positive py ''course_modes_api'' ms) = Inr (Some info)"
    by (cases "response_json rm"; cases "py_iter (projr (response_json rm))")
       (auto simp: modes_prices_def split: if_splits)
  then show ?thesis using two_pass_dict by blast
qed

lemma get_course_price_dict:
  "\<exists>p cu src. fst (get_course_price py srv course c)
      = JObj [(''price'', p), (''currency'', JStr cu), (''source'', JStr src)]"
proof -
  obtain hs1 c1 where 1: "get_auth_headers True srv c = (hs1, c1)"
    by (cases "get_auth_headers True srv c")
  obtain r1 c2 where 2: "session_send srv (get_request (CommerceCourse course) hs1) c1 = (r1, c2)"
    by (cases "session_send srv (get_request (CommerceCourse course) hs1) c1")
  obtain hs2 c3 where 3: "get_auth_headers True srv c2 = (hs2, c3)"
    by (cases "get_auth_headers True srv c2")
  obtain r2 c4 where 4: "session_send srv (get_request (CourseModes course) hs2) c3 = (r2, c4)"
    by (cases "session_send srv (get_request (CourseModes course) hs2) c3")
  let ?x1 = "case r1 of Inl e \<Rightarrow> Inl e | Inr resp \<Rightarrow> commerce_prices py resp"
  let ?x2 = "case r2 of Inl e \<Rightarrow> Inl e | Inr resp \<Rightarrow> modes_prices py resp"
  have e: "\<exists>p cu src. error_price
      = JObj [(''price'', p), (''currency'', JStr cu), (''source'', JStr src)]"
    unfolding error_price_def by blast
  have d: "\<exists>p cu src. default_price
      = JObj [(''price'', p), (''currency'', JStr cu), (''source'', JStr src)]"
    unfolding default_price_def by blast
  have i: "\<exists>p cu src. JObj info
      = JObj [(''price'', p), (''currency'', JStr cu), (''source'', JStr src)]"
    if "\<exists>p cu src. info = price_dict p cu src" for info
    using that unfolding price_dict_def by blast
  show ?thesis
  proof (cases ?x1)
    case (Inl a)
    then have "fst (get_course_price py srv course c) = error_price"
      using 1 2 by (simp add: get_course_price_def)
    with e show ?thesis by simp
  next
    case r1: (Inr o1)
    show ?thesis
    proof (cases o1)
      case (Some info)
      with r1 have "\<exists>rc. commerce_prices py rc = Inr (Some info)"
        by (cases r1) auto
      then have "\<exists>p cu src. info = price_dict p cu src"
        using commerce_prices_dict by blast
      moreover from r1 Some have "fst (get_course_price py srv course c) = JObj info"
        using 1 2 by (simp add: get_course_price_def)
      ultimately show ?thesis using i by simp
    next
      case None
      show ?thesis
      proof (cases ?x2)
        case (Inl a)
        with r1 None have "fst (get_course_price py srv course c) = error_price"
          using 1 2 3 4 by (simp add: get_course_price_def)
        with e show ?thesis by simp
      next
        case r2: (Inr o2)
        show ?thesis
        proof (cases o2)
          case (Some info)
          with r2 have "\<exists>rm. modes_prices py rm = Inr (Some info)"
            by (cases r2) auto
          then have "\<exists>p cu src. info = price_dict p cu src"
            using modes_prices_dict by blast
          moreover from r1 None r2 Some have "fst (get_course_price py srv course c) = JObj info"
            using 1 2 3 4 by (simp add: get_course_price_def)
          ultimately show ?thesis using i by simp
        next
          case n2: None
          with r1 None r2 have "fst (get_course_price py srv course c) = default_price"
            using 1 2 3 4 by (simp add: get_course_price_def)
          with d show ?thesis by simp
        qed
      qed
    qed
  qed
qed

text \<open>
  C2 (amended). \<open>get_course_price\<close> never raises: it always returns a dictionary
  with a price, a currency and a source. It returns price 0, currency USD, source
  \<open>error\<close> when the commerce call raises; when the commerce endpoint answers 200 with
  a body that is not JSON; when it answers 200 with unnamed mode dictionaries of which
  one has a price that \<open>float\<close> does not convert, the modes before it having prices
  that are not positive; and when the commerce response gives no price and the
  course-modes call raises or answers 200 with a body that is not JSON. It returns price
  0, currency USD, source \<open>default\<close> when neither response gives a price, where a
  response gives no price when its status is not 200, or its modes are dictionaries
  none of which is named \<open>professional\<close> or \<open>verified\<close> and each of which has a
  price that \<open>float\<close> converts to a value that is not greater than 0. (A named mode
  is returned as found, whatever its price.)
\<close>

theorem get_course_price_never_raises:
  "(\<exists>p cu src. fst (get_course_price py srv course c)
       = JObj [(''price'', p), (''currency'', JStr cu), (''source'', JStr src)])
   \<and> (answers srv (CommerceCourse course) (Inl e) \<longrightarrow>
        fst (get_course_price py srv course c)
          = JObj [(''price'', JInt 0), (''currency'', JStr ''USD''), (''source'', JStr ''error'')])
   \<and> (answers srv (CommerceCourse course) (Inr rc) \<and> status_code rc = 200
         \<and> json_body rc = None \<longrightarrow>
        fst (get_course_price py srv course c)
          = JObj [(''price'', JInt 0), (''currency'', JStr ''USD''), (''source'', JStr ''error'')])
   \<and> (answers srv (CommerceCourse course) (Inr rc) \<and> status_code rc = 200
         \<and> json_body rc = Some (JObj body)
         \<and> map_of body ''modes'' = Some (JArr (pre @ JObj m # post))
         \<and> list_all unnamed_mode (pre @ JObj m # post) \<and> list_all (unpriced_mode py) pre
         \<and> map_of m ''price'' = Some v \<and> py_float py v = Inl e \<longrightarrow>
        fst (get_course_price py srv course c)
          = JObj [(''price'', JInt 0), (''currency'', JStr ''USD''), (''source'', JStr ''error'')])
   \<and> (answers srv (CommerceCourse course) (Inr rc) \<and> commerce_silent py rc
         \<and> answers srv (CourseModes course) (Inl e) \<longrightarrow>
        fst (get_course_price py srv course c)
          = JObj [(''price'', JInt 0), (''currency'', JStr ''USD''), (''source'', JStr ''error'')])
   \<and> (answers srv (CommerceCourse course) (Inr rc) \<and> commerce_silent py rc
         \<and> answers srv (CourseModes course) (Inr rm) \<and> status_code rm = 200
         \<and> json_body rm = None \<longrightarrow>
        fst (get_course_price py srv course c)
          = JObj [(''price'', JInt 0), (''currency'', JStr ''USD''), (''source'', JStr ''error'')])
   \<and> (answers srv (CommerceCourse course) (Inr rc) \<and> commerce_silent py rc
         \<and> answers srv (CourseModes course) (Inr rm) \<and> modes_silent py rm \<longrightarrow>
        fst (get_course_price py srv course c)
          = JObj [(''price'', JInt 0), (''currency'', JStr ''USD''), (''source'', JStr ''default'')])"
proof (intro conjI impI)
  show "\<exists>p cu src. fst (get_course_price py srv course c)
       = JObj [(''price'', p), (''currency'', JStr cu), (''source'', JStr src)]"
    by (rule get_course_price_dict)
next
  assume "answers srv (CommerceCourse course) (Inl e)"
  from get_course_price_stage1(1) [OF this, of py e c]
  show "fst (get_course_price py srv course c)
          = JObj [(''price'', JInt 0), (''currency'', JStr ''USD''), (''source'', JStr ''error'')]"
    by (simp add: error_price_def)
next
  assume a: "answers srv (CommerceCourse course) (Inr rc) \<and> status_code rc = 200
         \<and> json_body rc = None"
  then have "commerce_prices py rc = Inl JSONDecodeError"
    by (simp add: commerce_prices_def response_json_def)
  with a get_course_price_stage1(1) [of srv course "Inr rc" py JSONDecodeError c]
  show "fst (get_course_price py srv course c)
          = JObj [(''price'', JInt 0), (''currency'', JStr ''USD''), (''source'', JStr ''error'')]"
    by (simp add: error_price_def)
next
  assume a: "answers srv (CommerceCourse course) (Inr rc) \<and> status_code rc = 200
         \<and> json_body rc = Some (JObj body)
         \<and> map_of body ''modes'' = Some (JArr (pre @ JObj m # post))
         \<and> list_all unnamed_mode (pre @ JObj m # post) \<and> list_all (unpriced_mode py) pre
         \<and> map_of m ''price'' = Some v \<and> py_float py v = Inl e"
  then have p: "mode_price py (JObj m) = Inl e"
    by (simp add: mode_price_def)
  from a have "scan_named py ''commerce_api'' (pre @ JObj m # post) = Inr None"
    by (simp add: scan_named_none)
  moreover from a p have "scan_positive py ''commerce_api'' (pre @ JObj m # post) = Inl e"
    by (simp add: scan_positive_raises)
  ultimately have "commerce_prices py rc = Inl e"
    using a by (simp add: commerce_prices_modes)
  with a get_course_price_stage1(1) [of srv course "Inr rc" py e c]
  show "fst (get_course_price py srv course c)
          = JObj [(''price'', JInt 0), (''currency'', JStr ''USD''), (''source'', JStr ''error'')]"
    by (simp add: error_price_def)
next
  assume a: "answers srv (CommerceCourse course) (Inr rc) \<and> commerce_silent py rc
         \<and> answers srv (CourseModes course) (Inl e)"
  then have "commerce_prices py rc = Inr None"
    by (simp add: commerce_prices_None_iff)
  with a get_course_price_stage2 [of srv course "Inr rc" py "Inl e" c]
  show "fst (get_course_price py srv course c)
          = JObj [(''price'', JInt 0), (''currency'', JStr ''USD''), (''source'', JStr ''error'')]"
    by (simp add: error_price_def)
next
  assume a: "answers srv (CommerceCourse course) (Inr rc) \<and> commerce_silent py rc
         \<and> answers srv (CourseModes course) (Inr rm) \<and> status_code rm = 200
         \<and> json_body rm = None"
  then have "commerce_prices py rc = Inr None"
    by (simp add: commerce_prices_None_iff)
  moreover from a have "modes_prices py rm = Inl JSONDecodeError"
    by (simp add: modes_prices_def response_json_def)
  ultimately show "fst (get_course_price py srv course c)
          = JObj [(''price'', JInt 0), (''currency'', JStr ''USD''), (''source'', JStr ''error'')]"
    using a get_course_price_stage2 [of srv course "Inr rc" py "Inr rm" c]
    by (simp add: error_price_def)
next
  assume a: "answers srv (CommerceCourse course) (Inr rc) \<and> commerce_silent py rc
         \<and> answers srv (CourseModes course) (Inr rm) \<and> modes_silent py rm"
  then have "commerce_prices py rc = Inr None" and "modes_prices py rm = Inr None"
    by (simp_all add: commerce_prices_None_iff modes_prices_None_iff)
  then show "fst (get_course_price py srv course c)
          = JObj [(''price'', JInt 0), (''currency'', JStr ''USD''), (''source'', JStr ''default'')]"
    using a get_course_price_stage2 [of srv course "Inr rc" py "Inr rm" c]
    by (simp add: default_price_def)
qed


theorem get_course_price_never_raises_witness:
  "fst (get_course_price ex_py (serve (ex_lms\<lparr>on_commerce := timed_out\<rparr>))
         (JStr ''c1'') ex_client)
     = JObj [(''price'', JInt 0), (''currency'', JStr ''USD''), (''source'', JStr ''error'')]
   \<and> fst (get_course_price ex_py (serve (ex_lms\<lparr>on_commerce := garbled\<rparr>))
         (JStr ''c1'') ex_client)
     = JObj [(''price'', JInt 0), (''currency'', JStr ''USD''), (''source'', JStr ''error'')]
   \<and> fst (get_course_price ex_py
         (serve (ex_lms\<lparr>on_commerce := modes_response
            [ex_mode ''audit'' 0 ''usd'',
             JObj [(''name'', JStr ''honor''), (''price'', JNull)]]\<rparr>))
         (JStr ''c1'') ex_client)
     = JObj [(''price'', JInt 0), (''currency'', JStr ''USD''), (''source'', JStr ''error'')]
   \<and> fst (get_course_price ex_py
         (serve (ex_lms\<lparr>on_commerce := modes_response
            [JObj [(''name'', JStr ''audit''), (''price'', JInt (- (10 ^ 400)))]]\<rparr>))
         (JStr ''c1'') ex_client)
     = JObj [(''price'', JInt 0), (''currency'', JStr ''USD''), (''source'', JStr ''error'')]
   \<and> fst (get_course_price ex_py (serve (ex_lms\<lparr>on_commerce := not_found, on_modes := timed_out\<rparr>))
         (JStr ''c1'') ex_client)
     = JObj [(''price'', JInt 0), (''currency'', JStr ''USD''), (''source'', JStr ''error'')]
   \<and> fst (get_course_price ex_py (serve (ex_lms\<lparr>on_commerce := not_found, on_modes := garbled\<rparr>))
         (JStr ''c1'') ex_client)
     = JObj [(''price'', JInt 0), (''currency'', JStr ''USD''), (''source'', JStr ''error'')]
   \<and> fst (get_course_price ex_py
         (serve (ex_lms\<lparr>on_commerce := modes_response [ex_mode ''audit'' 0 ''usd''],
                        on_modes := modes_list [ex_mode ''honor'' 0 ''usd'']\<rparr>))
         (JStr ''c1'') ex_client)
     = JObj [(''price'', JInt 0), (''currency'', JStr ''USD''), (''source'', JStr ''default'')]"
proof -
  let ?err = "JObj [(''price'', JInt 0), (''currency'', JStr ''USD''), (''source'', JStr ''error'')]"
  let ?rc = "http_response 404 [] None"
  let ?rg = "http_response 200 ''<html>'' None"
  let ?ra = "http_response 200 ''{\"modes\": [...]}''
               (Some (JObj [(''modes'', JArr [ex_mode ''audit'' 0 ''usd''])]))"
  let ?rm = "http_response 200 ''[...]'' (Some (JArr [ex_mode ''honor'' 0 ''usd'']))"
  let ?bad = "[(''name'', JStr ''honor''), (''price'', JNull)]"
  let ?rn = "http_response 200 ''{\"modes\": [...]}''
               (Some (JObj [(''modes'', JArr ([ex_mode ''audit'' 0 ''usd''] @ JObj ?bad # []))]))"
  let ?big = "[(''name'', JStr ''audit''), (''price'', JInt (- (10 ^ 400)))]"
  let ?ro = "http_response 200 ''{\"modes\": [...]}''
               (Some (JObj [(''modes'', JArr ([] @ JObj ?big # []))]))"
  let ?e = "TransportError ''timed out''"
  have s1: "commerce_silent ex_py ?rc"
    by (simp add: commerce_silent_def http_response_def)
  have s2: "commerce_silent ex_py ?ra"
    by (simp add: commerce_silent_def http_response_def offers_nothing_def unnamed_mode_def
        unpriced_mode_def mode_price_def ex_mode_def is_named_def float_of_int_small)
  have s3: "modes_silent ex_py ?rm"
    by (simp add: modes_silent_def http_response_def offers_nothing_def unnamed_mode_def
        unpriced_mode_def mode_price_def ex_mode_def is_named_def float_of_int_small)
  have g: "status_code ?rg = 200" "json_body ?rg = None"
    by (simp_all add: http_response_def)
  have n: "status_code ?rn = 200"
    "json_body ?rn = Some (JObj [(''modes'', JArr ([ex_mode ''audit'' 0 ''usd''] @ JObj ?bad # []))])"
    "map_of [(''modes'', JArr ([ex_mode ''audit'' 0 ''usd''] @ JObj ?bad # []))] ''modes''
       = Some (JArr ([ex_mode ''audit'' 0 ''usd''] @ JObj ?bad # []))"
    "list_all unnamed_mode ([ex_mode ''audit'' 0 ''usd''] @ JObj ?bad # [])"
    "list_all (unpriced_mode ex_py) [ex_mode ''audit'' 0 ''usd'']"
    "map_of ?bad ''price'' = Some JNull" "py_float ex_py JNull = Inl TypeError"
    by (simp_all add: http_response_def unnamed_mode_def unpriced_mode_def mode_price_def
        ex_mode_def is_named_def float_of_int_small)
  have o: "status_code ?ro = 200"
    "json_body ?ro = Some (JObj [(''modes'', JArr ([] @ JObj ?big # []))])"
    "map_of [(''modes'', JArr ([] @ JObj ?big # []))] ''modes'' = Some (JArr ([] @ JObj ?big # []))"
    "list_all unnamed_mode ([] @ JObj ?big # [])"
    "list_all (unpriced_mode ex_py) []"
    "map_of ?big ''price'' = Some (JInt (- (10 ^ 400)))"
    by (simp_all add: http_response_def unnamed_mode_def is_named_def)
  have o7: "py_float ex_py (JInt (- (10 ^ 400))) = Inl OverflowError"
    using float_of_int_overflow(4) by simp
  note t = get_course_price_never_raises [where py = ex_py and course = "JStr ''c1''"
      and c = ex_client]
  have 1: "fst (get_course_price ex_py (serve (ex_lms\<lparr>on_commerce := Inl ?e\<rparr>))
         (JStr ''c1'') ex_client) = ?err"
    using t [where srv = "serve (ex_lms\<lparr>on_commerce := Inl ?e\<rparr>)" and e = ?e]
      answers_serve(4) [of "ex_lms\<lparr>on_commerce := Inl ?e\<rparr>"]
    by simp
  have 2: "fst (get_course_price ex_py (serve (ex_lms\<lparr>on_commerce := Inr ?rg\<rparr>))
         (JStr ''c1'') ex_client) = ?err"
    using t [where srv = "serve (ex_lms\<lparr>on_commerce := Inr ?rg\<rparr>)" and rc = ?rg]
      answers_serve(4) [of "ex_lms\<lparr>on_commerce := Inr ?rg\<rparr>"] g
    by simp
  have 3: "fst (get_course_price ex_py (serve (ex_lms\<lparr>on_commerce := Inr ?rn\<rparr>))
         (JStr ''c1'') ex_client) = ?err"
    using t [where srv = "serve (ex_lms\<lparr>on_commerce := Inr ?rn\<rparr>)" and rc = ?rn
        and body = "[(''modes'', JArr ([ex_mode ''audit'' 0 ''usd''] @ JObj ?bad # []))]"
        and pre = "[ex_mode ''audit'' 0 ''usd'']" and m = ?bad and post = "[]"
        and v = JNull and e = TypeError]
      answers_serve(4) [of "ex_lms\<lparr>on_commerce := Inr ?rn\<rparr>"] n
    by simp
  have 4: "fst (get_course_price ex_py (serve (ex_lms\<lparr>on_commerce := Inr ?ro\<rparr>))
         (JStr ''c1'') ex_client) = ?err"
    using t [where srv = "serve (ex_lms\<lparr>on_commerce := Inr ?ro\<rparr>)" and rc = ?ro
        and body = "[(''modes'', JArr ([] @ JObj ?big # []))]"
        and pre = "[]" and m = ?big and post = "[]"
        and v = "JInt (- (10 ^ 400))" and e = OverflowError]
      answers_serve(4) [of "ex_lms\<lparr>on_commerce := Inr ?ro\<rparr>"] o o7
    by simp
  have 5: "fst (get_course_price ex_py
         (serve (ex_lms\<lparr>on_commerce := Inr ?rc, on_modes := Inl ?e\<rparr>))
         (JStr ''c1'') ex_client) = ?err"
    using t [where srv = "serve (ex_lms\<lparr>on_commerce := Inr ?rc, on_modes := Inl ?e\<rparr>)"
        and e = ?e and rc = ?rc]
      answers_serve(4,5) [of "ex_lms\<lparr>on_commerce := Inr ?rc, on_modes := Inl ?e\<rparr>"] s1
    by simp
  have 6: "fst (get_course_price ex_py
         (serve (ex_lms\<lparr>on_commerce := Inr ?rc, on_modes := Inr ?rg\<rparr>))
         (JStr ''c1'') ex_client) = ?err"
    using t [where srv = "serve (ex_lms\<lparr>on_commerce := Inr ?rc, on_modes := Inr ?rg\<rparr>)"
        and rc = ?rc and rm = ?rg]
      answers_serve(4,5) [of "ex_lms\<lparr>on_commerce := Inr ?rc, on_modes := Inr ?rg\<rparr>"] s1 g
    by simp
  have 7: "fst (get_course_price ex_py
         (serve (ex_lms\<lparr>on_commerce := Inr ?ra, on_modes := Inr ?rm\<rparr>))
         (JStr ''c1'') ex_client)
     = JObj [(''price'', JInt 0), (''currency'', JStr ''USD''), (''source'', JStr ''default'')]"
    using t [where srv = "serve (ex_lms\<lparr>on_commerce := Inr ?ra, on_modes := Inr ?rm\<rparr>)"
        and rc = ?ra and rm = ?rm]
      answers_serve(4,5) [of "ex_lms\<lparr>on_commerce := Inr ?ra, on_modes := Inr ?rm\<rparr>"] s2 s3
    by simp
  show ?thesis
    unfolding timed_out_def not_found_def garbled_def modes_list_def modes_response_def
    using 1 2 3 4 5 6 7 by (simp del: power_numeral)
qed

text \<open>
  C2 as stated fails: here neither source yields a positive price, the commerce source
  holding one mode named \<open>verified\<close> with price 0 and the course-modes source an
  empty list, and the result carries source \<open>commerce_api\<close>, not \<open>default\<close>.
\<close>

theorem named_zero_price_is_not_default:
  "fst (get_course_price ex_py
         (serve (ex_lms\<lparr>on_commerce := modes_response [ex_mode ''verified'' 0 ''usd''],
                        on_modes := modes_list []\<rparr>))
         (JStr ''c1'') ex_client)
     = JObj [(''price'', JFloat (Finite 0)), (''currency'', JStr ''USD''),
             (''source'', JStr ''commerce_api'')]
   \<and> fst (get_course_price ex_py
         (serve (ex_lms\<lparr>on_commerce := modes_response [ex_mode ''verified'' 0 ''usd''],
                        on_modes := modes_list []\<rparr>))
         (JStr ''c1'') ex_client)
     \<noteq> JObj [(''price'', JInt 0), (''currency'', JStr ''USD''), (''source'', JStr ''default'')]"
  by code_simp

section \<open>The credential cache\<close>

text \<open>
  C8 (amended). \<open>_get_csrf_token\<close> returns what it leaves in the cache and sends at
  most one request to the site root per call. Once a call has found a non-empty token,
  every later call returns it with the client unchanged, without a request, whatever the
  server would answer. When a call found no token, the outcome is not cached: the next
  call requests the site root again.
\<close>

theorem csrf_token_cached_once_found:
  assumes "get_csrf_token srv c = (t, c1)"
  shows "csrf_token c1 = t
       \<and> (requests_sent c1 = requests_sent c \<or> requests_sent c1 = requests_sent c @ [csrf_request])
       \<and> (str_truthy t \<longrightarrow> get_csrf_token srv2 c1 = (t, c1))
       \<and> (\<not> str_truthy t \<longrightarrow>
            requests_sent (snd (get_csrf_token srv2 c1)) = requests_sent c1 @ [csrf_request])"
proof -
  have 1: "csrf_token c1 = t"
    using assms
    by (auto simp: get_csrf_token_def session_send_def Let_def split: if_splits sum.splits)
  have 2: "requests_sent c1 = requests_sent c \<or> requests_sent c1 = requests_sent c @ [csrf_request]"
    using assms
    by (auto simp: get_csrf_token_def session_send_def Let_def split: if_splits sum.splits)
  have 3: "get_csrf_token srv2 c1 = (t, c1)" if "str_truthy t"
    using that 1 by (simp add: get_csrf_token_def)
  have 4: "requests_sent (snd (get_csrf_token srv2 c1)) = requests_sent c1 @ [csrf_request]"
    if "\<not> str_truthy t"
    using that 1
    by (auto simp: get_csrf_token_def session_send_def Let_def split: sum.splits)
  from 1 2 3 4 show ?thesis by blast
qed

theorem csrf_token_cached_once_found_witness:
  "fst (get_csrf_token (serve ex_lms) ex_client) = Some ''abc''
   \<and> get_csrf_token (serve (ex_lms\<lparr>on_root := timed_out\<rparr>))
        (snd (get_csrf_token (serve ex_lms) ex_client))
      = get_csrf_token (serve ex_lms) ex_client
   \<and> map req_url (requests_sent (snd (get_csrf_token (serve ex_lms) ex_client))) = [SiteRoot]
   \<and> fst (get_csrf_token (serve (ex_lms\<lparr>on_root := no_token_page\<rparr>)) ex_client) = None
   \<and> requests_sent (snd (get_csrf_token (serve ex_lms)
          (snd (get_csrf_token (serve (ex_lms\<lparr>on_root := no_token_page\<rparr>)) ex_client))))
      = requests_sent (snd (get_csrf_token (serve (ex_lms\<lparr>on_root := no_token_page\<rparr>)) ex_client))
          @ [csrf_request]"
proof -
  have a: "fst (get_csrf_token (serve ex_lms) ex_client) = Some ''abc''"
    by code_simp
  have b: "map req_url (requests_sent (snd (get_csrf_token (serve ex_lms) ex_client))) = [SiteRoot]"
    by code_simp
  have c: "fst (get_csrf_token (serve (ex_lms\<lparr>on_root := no_token_page\<rparr>)) ex_client) = None"
    by code_simp
  have t: "str_truthy (Some ''abc'')" "\<not> str_truthy None"
    by (simp_all add: str_truthy_def)
  from csrf_token_cached_once_found [OF surjective_pairing,
      of "serve ex_lms" ex_client "serve (ex_lms\<lparr>on_root := timed_out\<rparr>)"] a t
  have 1: "get_csrf_token (serve (ex_lms\<lparr>on_root := timed_out\<rparr>))
        (snd (get_csrf_token (serve ex_lms) ex_client))
      = get_csrf_token (serve ex_lms) ex_client"
    by (simp add: prod_eq_iff)
  from csrf_token_cached_once_found [OF surjective_pairing,
      of "serve (ex_lms\<lparr>on_root := no_token_page\<rparr>)" ex_client "serve ex_lms"] c t
  have 2: "requests_sent (snd (get_csrf_token (serve ex_lms)
          (snd (get_csrf_token (serve (ex_lms\<lparr>on_root := no_token_page\<rparr>)) ex_client))))
      = requests_sent (snd (get_csrf_token (serve (ex_lms\<lparr>on_root := no_token_page\<rparr>)) ex_client))
          @ [csrf_request]"
    by simp
  from a b c 1 2 show ?thesis by blast
qed

text \<open>
  C8 as stated fails: against a site root that sets no token, two calls on one client
  instance send two requests.
\<close>

theorem csrf_none_found_is_fetched_again:
  "fst (get_csrf_token (serve (ex_lms\<lparr>on_root := no_token_page\<rparr>)) ex_client) = None
   \<and> map req_url (requests_sent (snd (get_csrf_token (serve (ex_lms\<lparr>on_root := no_token_page\<rparr>))
        (snd (get_csrf_token (serve (ex_lms\<lparr>on_root := no_token_page\<rparr>)) ex_client)))))
      = [SiteRoot, SiteRoot]"
  by code_simp

text \<open>What \<open>enroll\<close> does when a bearer token is cached.\<close>

lemma enroll_cached:
  assumes "py_truthy (access_token c)"
  shows "\<exists>csrf c2 xs. get_csrf_token srv (c\<lparr>enroll_calls := enroll_calls c @ [(email, cid, md)]\<rparr>) = (csrf, c2)
     \<and> access_token c2 = access_token c
     \<and> requests_sent c2 = requests_sent c @ xs \<and> (\<forall>rq \<in> set xs. req_url rq = SiteRoot)
     \<and> (str_truthy (csrf_token c) \<longrightarrow> csrf_token c2 = csrf_token c)
     \<and> (case srv (requests_sent c2) (enrollment_request (access_token c) csrf email cid md) of
           Inl e \<Rightarrow> enroll srv email cid md c =
               ((False, Raised e), c2\<lparr>requests_sent := requests_sent c2 @
                  [enrollment_request (access_token c) csrf email cid md]\<rparr>)
         | Inr r \<Rightarrow>
             snd (enroll srv email cid md c) = c2\<lparr>requests_sent := requests_sent c2 @
                  [enrollment_request (access_token c) csrf email cid md]\<rparr>
             \<and> (status_code r \<noteq> 200 \<and> status_code r \<noteq> 201 \<longrightarrow>
                   \<not> fst (fst (enroll srv email cid md c))))"
proof -
  let ?c = "c\<lparr>enroll_calls := enroll_calls c @ [(email, cid, md)]\<rparr>"
  obtain csrf c2 where g: "get_csrf_token srv ?c = (csrf, c2)"
    by (cases "get_csrf_token srv ?c")
  from get_csrf_token_sent [of srv ?c] g obtain xs where
    xs: "requests_sent c2 = requests_sent c @ xs" "\<forall>rq \<in> set xs. req_url rq = SiteRoot"
    by auto
  from get_csrf_token_fields(2) [of srv ?c] g have at: "access_token c2 = access_token c"
    by simp
  have ct: "csrf_token c2 = csrf_token c" if "str_truthy (csrf_token c)"
    using that g by (auto simp: get_csrf_token_def)
  have tok: "get_access_token srv ?c = (access_token c, ?c)"
    using assms by (simp add: get_access_token_def)
  show ?thesis
    using g xs at ct tok assms
    by (auto simp: enroll_def session_send_def split: sum.splits)
qed


text \<open>
  C9 (amended). A 401 answer to the enrollment request is handled like any other status
  that is not 200 or 201: \<open>enroll\<close> returns failure, the cached bearer token is left
  as it was (a cached CSRF token too), no token request is sent and the rejected
  enrollment request is the last request of the call. No automatic refresh of the bearer
  token is performed at all: with a token in the cache \<open>_get_access_token\<close> returns it
  without a request.
\<close>

theorem enroll_401_keeps_credentials:
  assumes "answers srv Enrollment (Inr r)"
      and "status_code r = 401"
      and "py_truthy (access_token c)"
  shows "fst (fst (enroll srv email cid md c)) = False
       \<and> get_access_token srv c = (access_token c, c)
       \<and> access_token (snd (enroll srv email cid md c)) = access_token c
       \<and> (str_truthy (csrf_token c) \<longrightarrow>
            csrf_token (snd (enroll srv email cid md c)) = csrf_token c)
       \<and> filter (\<lambda>rq. req_url rq = OAuthToken)
            (drop (length (requests_sent c)) (requests_sent (snd (enroll srv email cid md c)))) = []
       \<and> req_url (last (requests_sent (snd (enroll srv email cid md c)))) = Enrollment"
proof -
  from enroll_cached [OF assms(3), of srv email cid md] obtain csrf c2 xs where
    at: "access_token c2 = access_token c"
    and xs: "requests_sent c2 = requests_sent c @ xs" "\<forall>rq \<in> set xs. req_url rq = SiteRoot"
    and ct: "str_truthy (csrf_token c) \<longrightarrow> csrf_token c2 = csrf_token c"
    and e: "(case srv (requests_sent c2) (enrollment_request (access_token c) csrf email cid md) of
           Inl e \<Rightarrow> enroll srv email cid md c =
               ((False, Raised e), c2\<lparr>requests_sent := requests_sent c2 @
                  [enrollment_request (access_token c) csrf email cid md]\<rparr>)
         | Inr r \<Rightarrow>
             snd (enroll srv email cid md c) = c2\<lparr>requests_sent := requests_sent c2 @
                  [enrollment_request (access_token c) csrf email cid md]\<rparr>
             \<and> (status_code r \<noteq> 200 \<and> status_code r \<noteq> 201 \<longrightarrow>
                   \<not> fst (fst (enroll srv email cid md c))))"
    by blast
  have "srv (requests_sent c2) (enrollment_request (access_token c) csrf email cid md) = Inr r"
    using assms(1) by (simp add: answers_def enrollment_request_def)
  with e assms(2) have
    s: "snd (enroll srv email cid md c) = c2\<lparr>requests_sent := requests_sent c2 @
                  [enrollment_request (access_token c) csrf email cid md]\<rparr>"
    and f: "\<not> fst (fst (enroll srv email cid md c))"
    by simp_all
  have n: "filter (\<lambda>rq. req_url rq = OAuthToken) xs = []"
    using xs(2) by (auto simp: filter_empty_conv)
  show ?thesis
    using f s at ct xs(1) n assms(3)
    by (simp add: get_access_token_cached enrollment_request_def)
qed

theorem enroll_401_keeps_credentials_witness:
  "fst (fst (enroll (serve (ex_lms\<lparr>on_enrollment := unauthorized\<rparr>))
               ''alice'' ''c1'' ''verified'' cached_client)) = False
   \<and> access_token (snd (enroll (serve (ex_lms\<lparr>on_enrollment := unauthorized\<rparr>))
               ''alice'' ''c1'' ''verified'' cached_client)) = JStr ''tok''
   \<and> csrf_token (snd (enroll (serve (ex_lms\<lparr>on_enrollment := unauthorized\<rparr>))
               ''alice'' ''c1'' ''verified'' cached_client)) = Some ''abc''
   \<and> map req_url (requests_sent (snd (enroll (serve (ex_lms\<lparr>on_enrollment := unauthorized\<rparr>))
               ''alice'' ''c1'' ''verified'' cached_client))) = [Enrollment]"
proof -
  let ?r = "http_response 401 ''{\"detail\": \"expired\"}''
              (Some (JObj [(''detail'', JStr ''expired'')]))"
  let ?l = "ex_lms\<lparr>on_enrollment := Inr ?r\<rparr>"
  have a: "answers (serve ?l) Enrollment (Inr ?r)"
    using answers_serve(6) [of ?l] by simp
  have b: "status_code ?r = 401"
    by (simp add: http_response_def)
  have c: "py_truthy (access_token cached_client)" "access_token cached_client = JStr ''tok''"
    "str_truthy (csrf_token cached_client)" "csrf_token cached_client = Some ''abc''"
    by (simp_all add: cached_client_def str_truthy_def)
  have d: "map req_url (requests_sent (snd (enroll (serve (ex_lms\<lparr>on_enrollment := unauthorized\<rparr>))
               ''alice'' ''c1'' ''verified'' cached_client))) = [Enrollment]"
    by code_simp
  show ?thesis
    using enroll_401_keeps_credentials [OF a b c(1), of "''alice''" "''c1''" "''verified''"] c d
    by (simp add: unauthorized_def)
qed

text \<open>
  C9 as stated fails: a fresh client fetches its credentials, posts the enrollment and
  receives 401; the enrollment request stays the last request sent and both credentials
  stay cached, so nothing is invalidated and nothing is fetched again.
\<close>

theorem enroll_401_does_not_refetch:
  "fst (fst (enroll (serve (ex_lms\<lparr>on_enrollment := unauthorized\<rparr>))
               ''alice'' ''c1'' ''verified'' ex_client)) = False
   \<and> map req_url (requests_sent (snd (enroll (serve (ex_lms\<lparr>on_enrollment := unauthorized\<rparr>))
               ''alice'' ''c1'' ''verified'' ex_client))) = [OAuthToken, SiteRoot, Enrollment]
   \<and> access_token (snd (enroll (serve (ex_lms\<lparr>on_enrollment := unauthorized\<rparr>))
               ''alice'' ''c1'' ''verified'' ex_client)) = JStr ''tok''
   \<and> csrf_token (snd (enroll (serve (ex_lms\<lparr>on_enrollment := unauthorized\<rparr>))
               ''alice'' ''c1'' ''verified'' ex_client)) = Some ''abc''"
  by code_simp

section \<open>The webhook\<close>

lemma enroll_calls_enroll:
  "enroll_calls (snd (enroll srv email cid md c)) = enroll_calls c @ [(email, cid, md)]"
proof -
  let ?c = "c\<lparr>enroll_calls := enroll_calls c @ [(email, cid, md)]\<rparr>"
  obtain tok c1 where 1: "get_access_token srv ?c = (tok, c1)"
    by (cases "get_access_token srv ?c")
  obtain csrf c2 where 2: "get_csrf_token srv c1 = (csrf, c2)"
    by (cases "get_csrf_token srv c1")
  from get_access_token_fields(1) [of srv ?c] 1 have e1: "enroll_calls c1 = enroll_calls ?c"
    by simp
  from get_csrf_token_fields(1) [of srv c1] 2 have e2: "enroll_calls c2 = enroll_calls c1"
    by simp
  show ?thesis
    using 1 2 e1 e2
    by (auto simp: enroll_def session_send_def split: sum.splits)
qed

lemma enroll_items_calls:
  "fst (enroll_items srv (Some u) its c) = Inr ()
   \<and> enroll_calls (snd (enroll_items srv (Some u) its c))
       = enroll_calls c @ map (\<lambda>it. (username u, course_id it, mode it)) its"
proof (induction its arbitrary: c)
  case Nil
  show ?case by simp
next
  case (Cons item rest)
  obtain outcome c1 where 1: "enroll srv (username u) (course_id item) (mode item) c = (outcome, c1)"
    by (cases "enroll srv (username u) (course_id item) (mode item) c")
  from enroll_calls_enroll [of srv "username u" "course_id item" "mode item" c] 1
  have "enroll_calls c1 = enroll_calls c @ [(username u, course_id item, mode item)]"
    by simp
  with Cons.IH [of c1] 1 show ?case by simp
qed

lemma items_clear: "items crt (clear crt d) = []"
  by (simp add: items_def clear_def filter_empty_conv)

text \<open>
  C1. On a signature-verified \<open>payment_intent.succeeded\<close> event whose metadata
  resolve to a cart and a user, \<open>webhook\<close> answers 200, calls \<open>enroll\<close> exactly
  once per line of the cart, in order, with the user's name and the line's course id and
  mode, and then clears the cart, which has no line afterwards. This holds for every
  server, so whatever each enrollment returned.
\<close>

theorem webhook_settles_every_line:
  assumes "construct_event payload sig_header (stripe_webhook_secret cfg) = Inr event"
      and "py_getitem event ''type'' = Inr (JStr ''payment_intent.succeeded'')"
      and "event_metadata event ''cart_id'' = Inr cart_key"
      and "event_metadata event ''user_id'' = Inr user_key"
      and "carts_get d cart_key = Some crt"
      and "users_get d user_key = Some u"
  shows "fst (webhook construct_event srv cfg payload sig_header d) = (200, Status ''success'')
       \<and> enroll_calls (snd (snd (webhook construct_event srv cfg payload sig_header d)))
           = map (\<lambda>it. (username u, course_id it, mode it)) (items crt d)
       \<and> length (enroll_calls (snd (snd (webhook construct_event srv cfg payload sig_header d))))
           = length (items crt d)
       \<and> fst (snd (webhook construct_event srv cfg payload sig_header d)) = clear crt d
       \<and> items crt (fst (snd (webhook construct_event srv cfg payload sig_header d))) = []"
proof -
  let ?api = "OpenEdxAPI (openedx_client_id cfg) (openedx_client_secret cfg)"
  obtain r api1 where l: "enroll_items srv (Some u) (items crt d) ?api = (r, api1)"
    by (cases "enroll_items srv (Some u) (items crt d) ?api")
  from enroll_items_calls [of srv u "items crt d" ?api] l
  have r: "r = Inr ()"
    and c: "enroll_calls api1 = map (\<lambda>it. (username u, course_id it, mode it)) (items crt d)"
    by (simp_all add: OpenEdxAPI_def)
  have w: "webhook construct_event srv cfg payload sig_header d
            = ((200, Status ''success''), clear crt d, api1)"
    using assms l r by (simp add: webhook_def)
  show ?thesis
    unfolding w using c by (simp add: items_clear)
qed

theorem webhook_settles_every_line_witness:
  "fst (webhook ex_construct_event (serve (ex_lms\<lparr>on_enrollment := timed_out\<rparr>)) ex_cfg
          ''payment_intent.succeeded'' (Some ''t=1,v1=good'')
          (ex_db [ex_line ''c1'' ''verified'' (Some 50), ex_line ''c2'' ''audit'' None]))
     = (200, Status ''success'')
   \<and> enroll_calls (snd (snd (webhook ex_construct_event (serve (ex_lms\<lparr>on_enrollment := timed_out\<rparr>))
          ex_cfg ''payment_intent.succeeded'' (Some ''t=1,v1=good'')
          (ex_db [ex_line ''c1'' ''verified'' (Some 50), ex_line ''c2'' ''audit'' None]))))
     = [(''alice'', ''c1'', ''verified''), (''alice'', ''c2'', ''audit'')]
   \<and> items ex_cart (fst (snd (webhook ex_construct_event (serve (ex_lms\<lparr>on_enrollment := timed_out\<rparr>))
          ex_cfg ''payment_intent.succeeded'' (Some ''t=1,v1=good'')
          (ex_db [ex_line ''c1'' ''verified'' (Some 50), ex_line ''c2'' ''audit'' None]))))
     = []
   \<and> fst (fst (enroll (serve (ex_lms\<lparr>on_enrollment := timed_out\<rparr>)) ''alice'' ''c1'' ''verified''
          ex_client)) = False"
proof -
  let ?d = "ex_db [ex_line ''c1'' ''verified'' (Some 50), ex_line ''c2'' ''audit'' None]"
  have 1: "ex_construct_event ''payment_intent.succeeded'' (Some ''t=1,v1=good'')
             (stripe_webhook_secret ex_cfg) = Inr (ex_event ''payment_intent.succeeded'')"
    by (simp add: ex_construct_event_def ex_cfg_def)
  have 2: "py_getitem (ex_event ''payment_intent.succeeded'') ''type''
             = Inr (JStr ''payment_intent.succeeded'')"
    by (simp add: ex_event_def)
  have 3: "event_metadata (ex_event ''payment_intent.succeeded'') ''cart_id'' = Inr (JStr ''1'')"
    by (simp add: ex_event_def event_metadata_def)
  have 4: "event_metadata (ex_event ''payment_intent.succeeded'') ''user_id'' = Inr (JStr ''7'')"
    by (simp add: ex_event_def event_metadata_def)
  have 5: "carts_get ?d (JStr ''1'') = Some ex_cart"
    by (simp add: ex_db_def)
  have 6: "users_get ?d (JStr ''7'') = Some ex_user"
    by (simp add: ex_db_def)
  have 7: "items ex_cart ?d = [ex_line ''c1'' ''verified'' (Some 50), ex_line ''c2'' ''audit'' None]"
    by (simp add: items_def ex_db_def ex_line_def ex_cart_def)
  have 8: "fst (fst (enroll (serve (ex_lms\<lparr>on_enrollment := timed_out\<rparr>)) ''alice'' ''c1''
          ''verified'' ex_client)) = False"
    by code_simp
  note t = webhook_settles_every_line [where construct_event = ex_construct_event
          and cfg = ex_cfg and srv = "serve (ex_lms\<lparr>on_enrollment := timed_out\<rparr>)",
        OF 1 2 3 4 5 6]
  have A: "fst (webhook ex_construct_event (serve (ex_lms\<lparr>on_enrollment := timed_out\<rparr>)) ex_cfg
          ''payment_intent.succeeded'' (Some ''t=1,v1=good'') ?d) = (200, Status ''success'')"
    by (rule t [THEN conjunct1])
  have B: "enroll_calls (snd (snd (webhook ex_construct_event
          (serve (ex_lms\<lparr>on_enrollment := timed_out\<rparr>))
          ex_cfg ''payment_intent.succeeded'' (Some ''t=1,v1=good'') ?d)))
     = [(''alice'', ''c1'', ''verified''), (''alice'', ''c2'', ''audit'')]"
    using t [THEN conjunct2, THEN conjunct1] 7 by (simp add: ex_line_def ex_user_def)
  have C: "items ex_cart (fst (snd (webhook ex_construct_event
          (serve (ex_lms\<lparr>on_enrollment := timed_out\<rparr>))
          ex_cfg ''payment_intent.succeeded'' (Some ''t=1,v1=good'') ?d))) = []"
    by (rule t [THEN conjunct2, THEN conjunct2, THEN conjunct2, THEN conjunct2])
  show ?thesis
    by (intro conjI A B C 8)
qed

text \<open>
  C3. When the signature check raises \<open>SignatureVerificationError\<close> or a
  \<open>ValueError\<close> (unparseable payload), \<open>webhook\<close> answers 400 with the matching
  error, the database is the one it was given, and its client has made no call of
  \<open>enroll\<close> and sent no request.
\<close>

theorem webhook_rejects_unverified:
  assumes "construct_event payload sig_header (stripe_webhook_secret cfg) = Inl e"
      and "is_ValueError e \<or> e = SignatureVerificationError"
  shows "fst (webhook construct_event srv cfg payload sig_header d)
           = (400, Error (if is_ValueError e then ''Invalid payload'' else ''Invalid signature''))
       \<and> fst (snd (webhook construct_event srv cfg payload sig_header d)) = d
       \<and> enroll_calls (snd (snd (webhook construct_event srv cfg payload sig_header d))) = []
       \<and> requests_sent (snd (snd (webhook construct_event srv cfg payload sig_header d))) = []"
  using assms by (auto simp: webhook_def OpenEdxAPI_def)

theorem webhook_rejects_unverified_witness:
  "fst (webhook ex_construct_event (serve ex_lms) ex_cfg ''payment_intent.succeeded''
          (Some ''t=1,v1=forged'') (ex_db [ex_line ''c1'' ''verified'' (Some 50)]))
     = (400, Error ''Invalid signature'')
   \<and> fst (snd (webhook ex_construct_event (serve ex_lms) ex_cfg ''payment_intent.succeeded''
          (Some ''t=1,v1=forged'') (ex_db [ex_line ''c1'' ''verified'' (Some 50)])))
     = ex_db [ex_line ''c1'' ''verified'' (Some 50)]
   \<and> enroll_calls (snd (snd (webhook ex_construct_event (serve ex_lms) ex_cfg
          ''payment_intent.succeeded'' (Some ''t=1,v1=forged'')
          (ex_db [ex_line ''c1'' ''verified'' (Some 50)])))) = []
   \<and> fst (webhook ex_construct_event (serve ex_lms) ex_cfg [] (Some ''t=1,v1=good'')
          (ex_db [ex_line ''c1'' ''verified'' (Some 50)]))
     = (400, Error ''Invalid payload'')
   \<and> fst (snd (webhook ex_construct_event (serve ex_lms) ex_cfg [] (Some ''t=1,v1=good'')
          (ex_db [ex_line ''c1'' ''verified'' (Some 50)])))
     = ex_db [ex_line ''c1'' ''verified'' (Some 50)]"
proof -
  have 1: "ex_construct_event ''payment_intent.succeeded'' (Some ''t=1,v1=forged'')
             (stripe_webhook_secret ex_cfg) = Inl SignatureVerificationError"
    by (simp add: ex_construct_event_def)
  have 2: "ex_construct_event [] (Some ''t=1,v1=good'') (stripe_webhook_secret ex_cfg)
             = Inl ValueError"
    by (simp add: ex_construct_event_def ex_cfg_def)
  have 3: "is_ValueError SignatureVerificationError \<or> SignatureVerificationError = SignatureVerificationError"
    by simp
  have 4: "is_ValueError ValueError \<or> ValueError = SignatureVerificationError"
    by (simp add: is_ValueError_def)
  show ?thesis
    using webhook_rejects_unverified [where construct_event = ex_construct_event
          and cfg = ex_cfg and srv = "serve ex_lms"
          and d = "ex_db [ex_line ''c1'' ''verified'' (Some 50)]", OF 1 3]
      webhook_rejects_unverified [where construct_event = ex_construct_event
          and cfg = ex_cfg and srv = "serve ex_lms"
          and d = "ex_db [ex_line ''c1'' ''verified'' (Some 50)]", OF 2 4]
    by (simp add: is_ValueError_def)
qed


section \<open>Checkout\<close>

lemma create_payment_intent_empty:
  "shopping_cart = None \<or> (\<exists>crt. shopping_cart = Some crt \<and> items crt d = []) \<Longrightarrow>
   create_payment_intent stripe_create cfg usr shopping_cart d = ((400, Error ''Cart is empty''), [])"
  by (auto simp: create_payment_intent_def)

lemma create_payment_intent_amount:
  "items crt d \<noteq> [] \<Longrightarrow>
   map amount (snd (create_payment_intent stripe_create cfg usr (Some crt) d))
     = [py_int (cart_total crt d * 100)]"
  by (simp add: create_payment_intent_def cart_total_def Let_def split: sum.splits)

text \<open>
  C6. The code computes the amount with \<open>int\<close>, which truncates, where the claim
  has \<open>round\<close>. For a cart whose one line costs 10.5078125 (a binary fraction, so
  exact in floating point as well), total * 100 is 1050.78125: rounded it is 1051, and
  the payment intent is created for 1050.
\<close>

theorem create_payment_intent_truncates:
  "cart_total ex_cart (ex_db [ex_line ''c1'' ''verified'' (Some (1345 / 128))]) * 100 = 134500 / 128
   \<and> py_round (cart_total ex_cart (ex_db [ex_line ''c1'' ''verified'' (Some (1345 / 128))]) * 100)
       = 1051
   \<and> map amount (snd (create_payment_intent ex_stripe_create ex_cfg ex_user (Some ex_cart)
         (ex_db [ex_line ''c1'' ''verified'' (Some (1345 / 128))]))) = [1050]"
  by code_simp

section \<open>The listing\<close>

text \<open>The pricing of one course inside the listing: an exception of the commerce call
  leaves the loop and the function, and two answers other than 200 leave the record as the
  catalog sent it.\<close>

lemma price_course_raises:
  assumes "py_get course ''id'' JNull = Inr cid" and "py_truthy cid"
      and "answers srv (CommerceCourse cid) (Inl e)"
  shows "fst (price_course py srv hs course c) = Inl e"
proof -
  have "srv (requests_sent c) (get_request (CommerceCourse cid) hs) = Inl e"
    using assms(3) by (simp add: answers_def get_request_def)
  with assms(1,2) show ?thesis
    by (simp add: price_course_def session_send_def)
qed

lemma price_course_unpriced:
  assumes "py_get course ''id'' JNull = Inr cid" and "py_truthy cid"
      and "\<not> py_contains ''price'' course"
      and "answers srv (CommerceCourse cid) (Inr rc)" and "status_code rc \<noteq> 200"
      and "answers srv (CourseModes cid) (Inr rm)" and "status_code rm \<noteq> 200"
  shows "fst (price_course py srv hs course c) = Inr course"
proof -
  have 1: "srv (requests_sent c) (get_request (CommerceCourse cid) hs) = Inr rc"
    using assms(4) by (simp add: answers_def get_request_def)
  have 2: "srv (requests_sent c @ [get_request (CommerceCourse cid) hs])
             (get_request (CourseModes cid) hs) = Inr rm"
    using assms(6) by (simp add: answers_def get_request_def)
  show ?thesis
    using assms(1,2,3,5,7) 1 2
    by (simp add: price_course_def session_send_def commerce_update_def modes_update_def)
qed

lemma price_courses_first_raises:
  assumes "fst (price_course py srv hs course c) = Inl e"
  shows "fst (price_courses py srv hs (course # rest) c) = Inl e"
  using assms by (cases "price_course py srv hs course c") (auto split: sum.splits)

text \<open>
  C4. The listing below answers 200 with one course. When the commerce request for it
  raises, \<open>get_courses\<close> returns \<open>None\<close>: the whole listing fails. When both
  pricing endpoints answer 404, the listing is returned, but the course is the record the
  catalog sent, without \<open>price\<close> and \<open>currency\<close>.
\<close>

theorem get_courses_pricing_failure:
  "fst (get_courses ex_py (serve (ex_lms\<lparr>on_commerce := timed_out\<rparr>)) 1 12 ex_client) = None
   \<and> fst (get_courses ex_py (serve (ex_lms\<lparr>on_commerce := not_found, on_modes := not_found\<rparr>))
          1 12 ex_client)
      = Some (JObj [(''results'', JArr [JObj [(''id'', JStr ''c1'')]]),
                    (''pagination'', JObj [(''page'', JInt 1), (''page_size'', JInt 12),
                                           (''total'', JInt 1)])])"
  by code_simp

end
